theory Spec2Isabelle
  imports Complex_Main "HOL-Library.Log_Nat"
begin

section \<open>The arithmetic of JavaScript numbers\<close>

text \<open>
  \<^verbatim>\<open>src/lib/solvers.ts\<close> computes on the TypeScript type \<^verbatim>\<open>number\<close> with the operators
  \<^verbatim>\<open>+\<close>, binary and unary \<^verbatim>\<open>-\<close>, \<^verbatim>\<open>*\<close>, \<^verbatim>\<open>/\<close>, with \<^verbatim>\<open>Math.sin\<close> and with the literals
  \<^verbatim>\<open>0\<close>, \<^verbatim>\<open>1\<close>, \<^verbatim>\<open>2\<close> and \<^verbatim>\<open>6\<close>. These operations belong to the language, not to the
  repository, so the embedding takes them as a parameter: a record of operations on a
  carrier \<open>'a\<close>. Every definition below is the source function with its operators
  replaced by the fields of that record, and a theorem stated for an arbitrary record
  holds for IEEE 754 binary64 (where \<open>'a\<close> contains NaN and the infinities) as well as
  for exact real arithmetic.
\<close>

record 'a number_ops =
  n_add :: "'a \<Rightarrow> 'a \<Rightarrow> 'a"
  n_sub :: "'a \<Rightarrow> 'a \<Rightarrow> 'a"
  n_mul :: "'a \<Rightarrow> 'a \<Rightarrow> 'a"
  n_div :: "'a \<Rightarrow> 'a \<Rightarrow> 'a"
  n_neg :: "'a \<Rightarrow> 'a"
  n_sin :: "'a \<Rightarrow> 'a"
  n_lit :: "int \<Rightarrow> 'a"

text \<open>Exact arithmetic on the reals: no rounding, no overflow.\<close>

definition real_ops :: "real number_ops" where
  "real_ops = \<lparr>n_add = (+), n_sub = (-), n_mul = (*), n_div = (/),
     n_neg = uminus, n_sin = sin, n_lit = of_int\<rparr>"

section \<open>The integrator\<close>

type_synonym 'a DerivativeFn2D = "'a \<Rightarrow> 'a \<times> 'a \<Rightarrow> 'a \<times> 'a"
type_synonym 'a DerivativeFn3D = "'a \<Rightarrow> 'a \<times> 'a \<times> 'a \<Rightarrow> 'a \<times> 'a \<times> 'a"

text \<open>
  \<^verbatim>\<open>rk4Step2D(f, t, y, dt)\<close>. Tuples \<^verbatim>\<open>[number, number]\<close> are pairs; \<^verbatim>\<open>a * dt / 2\<close>
  parses as \<^verbatim>\<open>(a * dt) / 2\<close> and the sums associate to the left, as in the source.
\<close>

fun rk4Step2D :: "'a number_ops \<Rightarrow> 'a DerivativeFn2D \<Rightarrow> 'a \<Rightarrow> 'a \<times> 'a \<Rightarrow> 'a \<Rightarrow> 'a \<times> 'a" where
  "rk4Step2D A f t (y0, y1) dt =
    (case f t (y0, y1) of (k10, k11) \<Rightarrow>
     case f (n_add A t (n_div A dt (n_lit A 2)))
            (n_add A y0 (n_div A (n_mul A k10 dt) (n_lit A 2)),
             n_add A y1 (n_div A (n_mul A k11 dt) (n_lit A 2))) of (k20, k21) \<Rightarrow>
     case f (n_add A t (n_div A dt (n_lit A 2)))
            (n_add A y0 (n_div A (n_mul A k20 dt) (n_lit A 2)),
             n_add A y1 (n_div A (n_mul A k21 dt) (n_lit A 2))) of (k30, k31) \<Rightarrow>
     case f (n_add A t dt)
            (n_add A y0 (n_mul A k30 dt),
             n_add A y1 (n_mul A k31 dt)) of (k40, k41) \<Rightarrow>
     (n_add A y0 (n_div A (n_mul A
        (n_add A (n_add A (n_add A k10 (n_mul A (n_lit A 2) k20)) (n_mul A (n_lit A 2) k30)) k40)
        dt) (n_lit A 6)),
      n_add A y1 (n_div A (n_mul A
        (n_add A (n_add A (n_add A k11 (n_mul A (n_lit A 2) k21)) (n_mul A (n_lit A 2) k31)) k41)
        dt) (n_lit A 6))))"

text \<open>\<^verbatim>\<open>rk4Step3D(f, t, y, dt)\<close>: the same on triples.\<close>

fun rk4Step3D :: "'a number_ops \<Rightarrow> 'a DerivativeFn3D \<Rightarrow> 'a \<Rightarrow> 'a \<times> 'a \<times> 'a \<Rightarrow> 'a \<Rightarrow> 'a \<times> 'a \<times> 'a" where
  "rk4Step3D A f t (y0, y1, y2) dt =
    (case f t (y0, y1, y2) of (k10, k11, k12) \<Rightarrow>
     case f (n_add A t (n_div A dt (n_lit A 2)))
            (n_add A y0 (n_div A (n_mul A k10 dt) (n_lit A 2)),
             n_add A y1 (n_div A (n_mul A k11 dt) (n_lit A 2)),
             n_add A y2 (n_div A (n_mul A k12 dt) (n_lit A 2))) of (k20, k21, k22) \<Rightarrow>
     case f (n_add A t (n_div A dt (n_lit A 2)))
            (n_add A y0 (n_div A (n_mul A k20 dt) (n_lit A 2)),
             n_add A y1 (n_div A (n_mul A k21 dt) (n_lit A 2)),
             n_add A y2 (n_div A (n_mul A k22 dt) (n_lit A 2))) of (k30, k31, k32) \<Rightarrow>
     case f (n_add A t dt)
            (n_add A y0 (n_mul A k30 dt),
             n_add A y1 (n_mul A k31 dt),
             n_add A y2 (n_mul A k32 dt)) of (k40, k41, k42) \<Rightarrow>
     (n_add A y0 (n_div A (n_mul A
        (n_add A (n_add A (n_add A k10 (n_mul A (n_lit A 2) k20)) (n_mul A (n_lit A 2) k30)) k40)
        dt) (n_lit A 6)),
      n_add A y1 (n_div A (n_mul A
        (n_add A (n_add A (n_add A k11 (n_mul A (n_lit A 2) k21)) (n_mul A (n_lit A 2) k31)) k41)
        dt) (n_lit A 6)),
      n_add A y2 (n_div A (n_mul A
        (n_add A (n_add A (n_add A k12 (n_mul A (n_lit A 2) k22)) (n_mul A (n_lit A 2) k32)) k42)
        dt) (n_lit A 6))))"

section \<open>The scheme of the specification\<close>

text \<open>
  The specification writes one step on whole vectors:
  \<^verbatim>\<open>k1 = f(t, y)\<close>, \<^verbatim>\<open>k2 = f(t + dt/2, y + k1*dt/2)\<close>, \<^verbatim>\<open>k3 = f(t + dt/2, y + k2*dt/2)\<close>,
  \<^verbatim>\<open>k4 = f(t + dt, y + k3*dt)\<close>, \<^verbatim>\<open>y' = y + (k1 + 2*k2 + 2*k3 + k4) * dt/6\<close>,
  element-wise and the same for both widths. \<open>rk4_spec\<close> follows these words; the
  width enters only through \<open>each\<close> (apply a function to every component) and
  \<open>both\<close> (combine two vectors component by component).
\<close>

fun each2 :: "('a \<Rightarrow> 'a) \<Rightarrow> 'a \<times> 'a \<Rightarrow> 'a \<times> 'a" where
  "each2 g (u0, u1) = (g u0, g u1)"

fun both2 :: "('a \<Rightarrow> 'a \<Rightarrow> 'a) \<Rightarrow> 'a \<times> 'a \<Rightarrow> 'a \<times> 'a \<Rightarrow> 'a \<times> 'a" where
  "both2 g (u0, u1) (v0, v1) = (g u0 v0, g u1 v1)"

fun each3 :: "('a \<Rightarrow> 'a) \<Rightarrow> 'a \<times> 'a \<times> 'a \<Rightarrow> 'a \<times> 'a \<times> 'a" where
  "each3 g (u0, u1, u2) = (g u0, g u1, g u2)"

fun both3 :: "('a \<Rightarrow> 'a \<Rightarrow> 'a) \<Rightarrow> 'a \<times> 'a \<times> 'a \<Rightarrow> 'a \<times> 'a \<times> 'a \<Rightarrow> 'a \<times> 'a \<times> 'a" where
  "both3 g (u0, u1, u2) (v0, v1, v2) = (g u0 v0, g u1 v1, g u2 v2)"

definition rk4_spec :: "(('a \<Rightarrow> 'a) \<Rightarrow> 'v \<Rightarrow> 'v) \<Rightarrow> (('a \<Rightarrow> 'a \<Rightarrow> 'a) \<Rightarrow> 'v \<Rightarrow> 'v \<Rightarrow> 'v) \<Rightarrow>
    'a number_ops \<Rightarrow> ('a \<Rightarrow> 'v \<Rightarrow> 'v) \<Rightarrow> 'a \<Rightarrow> 'v \<Rightarrow> 'a \<Rightarrow> 'v" where
  "rk4_spec each both A f t y dt =
    (let vadd = both (n_add A);
         twice = each (n_mul A (n_lit A 2));
         k1 = f t y;
         k2 = f (n_add A t (n_div A dt (n_lit A 2)))
                (vadd y (each (\<lambda>k. n_div A (n_mul A k dt) (n_lit A 2)) k1));
         k3 = f (n_add A t (n_div A dt (n_lit A 2)))
                (vadd y (each (\<lambda>k. n_div A (n_mul A k dt) (n_lit A 2)) k2));
         k4 = f (n_add A t dt) (vadd y (each (\<lambda>k. n_mul A k dt) k3))
     in vadd y (each (\<lambda>k. n_div A (n_mul A k dt) (n_lit A 6))
                  (vadd (vadd (vadd k1 (twice k2)) (twice k3)) k4)))"

section \<open>The four vector fields\<close>

text \<open>
  Each constructor closes over its parameters and returns a function of the time
  \<^verbatim>\<open>_t\<close> (unused, written \<open>t\<close> here) and the state. \<^verbatim>\<open>-gamma * omega\<close> is \<^verbatim>\<open>(-gamma) * omega\<close>, and
  \<^verbatim>\<open>omega0 * omega0 * Math.sin(theta)\<close> is \<^verbatim>\<open>(omega0 * omega0) * Math.sin(theta)\<close>.
\<close>

fun lorenzDerivative :: "'a number_ops \<Rightarrow> 'a \<Rightarrow> 'a \<Rightarrow> 'a \<Rightarrow> 'a DerivativeFn3D" where
  "lorenzDerivative A sigma rho beta t (x, y, z) =
    (n_mul A sigma (n_sub A y x),
     n_sub A (n_mul A x (n_sub A rho z)) y,
     n_sub A (n_mul A x y) (n_mul A beta z))"

fun vanDerPolDerivative :: "'a number_ops \<Rightarrow> 'a \<Rightarrow> 'a DerivativeFn2D" where
  "vanDerPolDerivative A mu t (x, y) =
    (y,
     n_sub A (n_mul A (n_mul A mu (n_sub A (n_lit A 1) (n_mul A x x))) y) x)"

fun dampedPendulumDerivative :: "'a number_ops \<Rightarrow> 'a \<Rightarrow> 'a \<Rightarrow> 'a DerivativeFn2D" where
  "dampedPendulumDerivative A gamma omega0 t (theta, omega) =
    (omega,
     n_sub A (n_mul A (n_neg A gamma) omega)
             (n_mul A (n_mul A omega0 omega0) (n_sin A theta)))"

fun rosslerDerivative :: "'a number_ops \<Rightarrow> 'a \<Rightarrow> 'a \<Rightarrow> 'a \<Rightarrow> 'a DerivativeFn3D" where
  "rosslerDerivative A a b c t (x, y, z) =
    (n_sub A (n_neg A y) z,
     n_add A x (n_mul A a y),
     n_add A b (n_mul A z (n_sub A x c)))"

section \<open>The solve wrappers\<close>

text \<open>\<^verbatim>\<open>THREE.Vector3\<close>: three numbers, built by \<^verbatim>\<open>new THREE.Vector3(x, y, z)\<close>.\<close>

datatype 'a Vector3 = Vector3 (vec_x: 'a) (vec_y: 'a) (vec_z: 'a)

text \<open>
  The loop \<^verbatim>\<open>for (let i = 0; i < steps; i++) { state = rk4Step(f, t, state, dt); t += dt;
  points.push(new THREE.Vector3(...)) }\<close> with its variables \<open>i\<close>, \<open>state\<close>, \<open>t\<close> and
  \<open>points\<close> as arguments. The two 3-dimensional wrappers contain the same loop, and so do
  the two 2-dimensional ones, which push \<^verbatim>\<open>new THREE.Vector3(state[0], state[1], 0)\<close>.
\<close>

function for_loop3D :: "'a number_ops \<Rightarrow> 'a DerivativeFn3D \<Rightarrow> 'a \<Rightarrow> int \<Rightarrow> int \<Rightarrow>
    'a \<times> 'a \<times> 'a \<Rightarrow> 'a \<Rightarrow> 'a Vector3 list \<Rightarrow> 'a Vector3 list" where
  "for_loop3D A f dt steps i state t points =
    (if i < steps then
       (case rk4Step3D A f t state dt of (s0, s1, s2) \<Rightarrow>
          for_loop3D A f dt steps (i + 1) (s0, s1, s2) (n_add A t dt) (points @ [Vector3 s0 s1 s2]))
     else points)"
  by pat_completeness auto
termination
  by (relation "measure (\<lambda>(A, f, dt, steps, i, state, t, points). nat (steps - i))") auto

function for_loop2D :: "'a number_ops \<Rightarrow> 'a DerivativeFn2D \<Rightarrow> 'a \<Rightarrow> int \<Rightarrow> int \<Rightarrow>
    'a \<times> 'a \<Rightarrow> 'a \<Rightarrow> 'a Vector3 list \<Rightarrow> 'a Vector3 list" where
  "for_loop2D A f dt steps i state t points =
    (if i < steps then
       (case rk4Step2D A f t state dt of (s0, s1) \<Rightarrow>
          for_loop2D A f dt steps (i + 1) (s0, s1) (n_add A t dt) (points @ [Vector3 s0 s1 (n_lit A 0)]))
     else points)"
  by pat_completeness auto
termination
  by (relation "measure (\<lambda>(A, f, dt, steps, i, state, t, points). nat (steps - i))") auto

declare for_loop3D.simps [simp del] for_loop2D.simps [simp del]

text \<open>
  The parameter objects. \<^verbatim>\<open>steps\<close> is a \<^verbatim>\<open>number\<close> that the loop only compares with
  the counter \<^verbatim>\<open>i\<close>; it is modelled as an integer of either sign.
\<close>

record 'a lorenz_params =
  sigma :: 'a
  rho :: 'a
  beta :: 'a
  x0 :: 'a
  y0 :: 'a
  z0 :: 'a
  dt :: 'a
  steps :: int

record 'a van_der_pol_params =
  mu :: 'a
  x0 :: 'a
  y0 :: 'a
  dt :: 'a
  steps :: int

record 'a damped_pendulum_params =
  gamma :: 'a
  omega0 :: 'a
  theta0 :: 'a
  omegaInit :: 'a
  dt :: 'a
  steps :: int

record 'a rossler_params =
  a :: 'a
  b :: 'a
  c :: 'a
  x0 :: 'a
  y0 :: 'a
  z0 :: 'a
  dt :: 'a
  steps :: int

definition solveLorenz :: "'a number_ops \<Rightarrow> 'a lorenz_params \<Rightarrow> 'a Vector3 list" where
  "solveLorenz A params =
    (let f = lorenzDerivative A (sigma params) (rho params) (beta params);
         state = (lorenz_params.x0 params, lorenz_params.y0 params, lorenz_params.z0 params);
         t = n_lit A 0;
         points = [] @ [Vector3 (fst state) (fst (snd state)) (snd (snd state))]
     in for_loop3D A f (lorenz_params.dt params) (lorenz_params.steps params) 0 state t points)"

definition solveVanDerPol :: "'a number_ops \<Rightarrow> 'a van_der_pol_params \<Rightarrow> 'a Vector3 list" where
  "solveVanDerPol A params =
    (let f = vanDerPolDerivative A (mu params);
         state = (van_der_pol_params.x0 params, van_der_pol_params.y0 params);
         t = n_lit A 0;
         points = [] @ [Vector3 (fst state) (snd state) (n_lit A 0)]
     in for_loop2D A f (van_der_pol_params.dt params) (van_der_pol_params.steps params) 0 state t points)"

definition solveDampedPendulum :: "'a number_ops \<Rightarrow> 'a damped_pendulum_params \<Rightarrow> 'a Vector3 list" where
  "solveDampedPendulum A params =
    (let f = dampedPendulumDerivative A (gamma params) (omega0 params);
         state = (theta0 params, omegaInit params);
         t = n_lit A 0;
         points = [] @ [Vector3 (fst state) (snd state) (n_lit A 0)]
     in for_loop2D A f (damped_pendulum_params.dt params) (damped_pendulum_params.steps params) 0 state t points)"

definition solveRossler :: "'a number_ops \<Rightarrow> 'a rossler_params \<Rightarrow> 'a Vector3 list" where
  "solveRossler A params =
    (let f = rosslerDerivative A (a params) (b params) (c params);
         state = (rossler_params.x0 params, rossler_params.y0 params, rossler_params.z0 params);
         t = n_lit A 0;
         points = [] @ [Vector3 (fst state) (fst (snd state)) (snd (snd state))]
     in for_loop3D A f (rossler_params.dt params) (rossler_params.steps params) 0 state t points)"

section \<open>Trajectories as orbits\<close>

text \<open>
  Auxiliary notions for the proofs. \<open>orbit k g s\<close> lists the \<open>k\<close> states that follow
  \<open>s\<close> under the map \<open>g\<close>; a vector field is autonomous when it ignores its time
  argument; \<open>point3D\<close> and \<open>point2D\<close> are the two ways the wrappers turn a state into
  a \<^verbatim>\<open>THREE.Vector3\<close>, and \<open>state3D\<close>, \<open>state2D\<close> read a state back from a point.
\<close>

fun orbit :: "nat \<Rightarrow> ('s \<Rightarrow> 's) \<Rightarrow> 's \<Rightarrow> 's list" where
  "orbit 0 g s = []"
| "orbit (Suc k) g s = g s # orbit k g (g s)"

definition autonomous :: "('t \<Rightarrow> 's \<Rightarrow> 's) \<Rightarrow> bool" where
  "autonomous f = (\<forall>t t' y. f t y = f t' y)"

fun point3D :: "'a \<times> 'a \<times> 'a \<Rightarrow> 'a Vector3" where
  "point3D (s0, s1, s2) = Vector3 s0 s1 s2"

fun point2D :: "'a number_ops \<Rightarrow> 'a \<times> 'a \<Rightarrow> 'a Vector3" where
  "point2D A (s0, s1) = Vector3 s0 s1 (n_lit A 0)"

definition state3D :: "'a Vector3 \<Rightarrow> 'a \<times> 'a \<times> 'a" where
  "state3D v = (vec_x v, vec_y v, vec_z v)"

definition state2D :: "'a Vector3 \<Rightarrow> 'a \<times> 'a" where
  "state2D v = (vec_x v, vec_y v)"

definition trajectory :: "('s \<Rightarrow> 'p) \<Rightarrow> ('s \<Rightarrow> 's) \<Rightarrow> 's \<Rightarrow> int \<Rightarrow> 'p list" where
  "trajectory pt g s n = map pt (s # orbit (nat n) g s)"

text \<open>One pass through a loop body, on the pair of \<open>state\<close> and \<open>t\<close>.\<close>

fun timed_step3D :: "'a number_ops \<Rightarrow> 'a DerivativeFn3D \<Rightarrow> 'a \<Rightarrow> ('a \<times> 'a \<times> 'a) \<times> 'a \<Rightarrow>
    ('a \<times> 'a \<times> 'a) \<times> 'a" where
  "timed_step3D A f h (s, t) = (rk4Step3D A f t s h, n_add A t h)"

fun timed_step2D :: "'a number_ops \<Rightarrow> 'a DerivativeFn2D \<Rightarrow> 'a \<Rightarrow> ('a \<times> 'a) \<times> 'a \<Rightarrow>
    ('a \<times> 'a) \<times> 'a" where
  "timed_step2D A f h (s, t) = (rk4Step2D A f t s h, n_add A t h)"

section \<open>IEEE 754 binary64\<close>

text \<open>
  The instance of the arithmetic that a JavaScript engine runs. ECMAScript's Number type
  is IEEE 754 binary64 with round-to-nearest, ties-to-even. A \<open>double\<close> is NaN, an
  infinity with its sign (\<open>True\<close> for negative), or a finite value given by sign and
  magnitude, so that \<open>Finite True 0\<close> is \<open>-0\<close>. \<open>round_mag\<close> rounds a non-negative
  rational to the nearest value \<open>m * 2^e\<close> with \<open>m < 2^53\<close> and \<open>e \<ge> -1074\<close>, and
  returns \<open>None\<close> when the rounded magnitude reaches \<open>2^1024\<close> (overflow). The
  operations follow Number::add, Number::subtract (\<open>x + (-y)\<close>), Number::multiply,
  Number::divide and Number::unaryMinus. \<^verbatim>\<open>Math.sin\<close> is fixed by the standard only at NaN,
  at the infinities and at the zeros; elsewhere its result is implementation-approximated
  and the model takes that part as the parameter \<open>approx\<close>.
\<close>

datatype double = NaN | Infinity bool | Finite bool rat

definition pow2 :: "int \<Rightarrow> rat" where
  "pow2 k = (if 0 \<le> k then 2 ^ nat k else 1 / 2 ^ nat (- k))"

definition floor_log2 :: "rat \<Rightarrow> int" where
  "floor_log2 q = (case quotient_of q of (n, d) \<Rightarrow>
     let k = bitlen n - bitlen d in if pow2 k \<le> q then k else k - 1)"

definition round_half_even :: "rat \<Rightarrow> int" where
  "round_half_even x = (let n = \<lfloor>x\<rfloor>; r = x - of_int n in
     if r < 1 / 2 then n else if 1 / 2 < r then n + 1 else if even n then n else n + 1)"

definition round_mag :: "rat \<Rightarrow> rat option" where
  "round_mag q = (if q = 0 then Some 0 else
     let e = max (floor_log2 q) (- 1022);
         ulp = pow2 (e - 52);
         r = of_int (round_half_even (q / ulp)) * ulp
     in if pow2 1024 \<le> r then None else Some r)"

definition fl :: "bool \<Rightarrow> rat \<Rightarrow> double" where
  "fl s q = (case round_mag q of None \<Rightarrow> Infinity s | Some r \<Rightarrow> Finite s r)"

definition signed :: "bool \<Rightarrow> rat \<Rightarrow> rat" where
  "signed s m = (if s then - m else m)"

fun d_neg :: "double \<Rightarrow> double" where
  "d_neg NaN = NaN"
| "d_neg (Infinity s) = Infinity (\<not> s)"
| "d_neg (Finite s m) = Finite (\<not> s) m"

fun d_add :: "double \<Rightarrow> double \<Rightarrow> double" where
  "d_add NaN v = NaN"
| "d_add u NaN = NaN"
| "d_add (Infinity s) (Infinity s') = (if s = s' then Infinity s else NaN)"
| "d_add (Infinity s) (Finite s' m') = Infinity s"
| "d_add (Finite s m) (Infinity s') = Infinity s'"
| "d_add (Finite s m) (Finite s' m') =
     (let r = signed s m + signed s' m' in
      if r = 0 then Finite (s \<and> s') 0 else fl (r < 0) \<bar>r\<bar>)"

definition d_sub :: "double \<Rightarrow> double \<Rightarrow> double" where
  "d_sub u v = d_add u (d_neg v)"

fun d_mul :: "double \<Rightarrow> double \<Rightarrow> double" where
  "d_mul NaN v = NaN"
| "d_mul u NaN = NaN"
| "d_mul (Infinity s) (Infinity s') = Infinity (s \<noteq> s')"
| "d_mul (Infinity s) (Finite s' m') = (if m' = 0 then NaN else Infinity (s \<noteq> s'))"
| "d_mul (Finite s m) (Infinity s') = (if m = 0 then NaN else Infinity (s \<noteq> s'))"
| "d_mul (Finite s m) (Finite s' m') = fl (s \<noteq> s') (m * m')"

fun d_div :: "double \<Rightarrow> double \<Rightarrow> double" where
  "d_div NaN v = NaN"
| "d_div u NaN = NaN"
| "d_div (Infinity s) (Infinity s') = NaN"
| "d_div (Infinity s) (Finite s' m') = Infinity (s \<noteq> s')"
| "d_div (Finite s m) (Infinity s') = Finite (s \<noteq> s') 0"
| "d_div (Finite s m) (Finite s' m') =
     (if m' = 0 then (if m = 0 then NaN else Infinity (s \<noteq> s'))
      else fl (s \<noteq> s') (m / m'))"

definition d_lit :: "int \<Rightarrow> double" where
  "d_lit n = fl (n < 0) (of_int \<bar>n\<bar>)"

definition math_sin :: "(rat \<Rightarrow> bool \<times> rat) \<Rightarrow> double \<Rightarrow> double" where
  "math_sin approx u = (case u of NaN \<Rightarrow> NaN | Infinity s \<Rightarrow> NaN
     | Finite s m \<Rightarrow> if m = 0 then u else (case approx (signed s m) of (s', m') \<Rightarrow> Finite s' m'))"

definition ieee_ops :: "(rat \<Rightarrow> bool \<times> rat) \<Rightarrow> double number_ops" where
  "ieee_ops approx = \<lparr>n_add = d_add, n_sub = d_sub, n_mul = d_mul, n_div = d_div,
     n_neg = d_neg, n_sin = math_sin approx, n_lit = d_lit\<rparr>"

section \<open>Notions for the zero step\<close>

text \<open>
  \<open>is_finite\<close> and \<open>is_zero\<close> classify doubles; \<open>ordinary\<close> holds of a finite double
  other than \<open>-0\<close> (its magnitude is representable: rounding leaves it unchanged).
  \<open>weighted_sum A k\<close> is \<^verbatim>\<open>k + 2 * k + 2 * k + k\<close> as the steppers compute it when the four
  slopes coincide, \<open>no_overflow2D\<close> and \<open>no_overflow3D\<close> say that this sum is finite in
  every component, and \<open>absorbs A h y k\<close> says that the three increments of one
  component leave \<open>y\<close> unchanged. \<open>no_approx\<close> stands for the implementation's part of
  \<^verbatim>\<open>Math.sin\<close> in the closed examples, none of which evaluates it.
\<close>

definition is_finite :: "double \<Rightarrow> bool" where
  "is_finite u = (case u of Finite s m \<Rightarrow> True | _ \<Rightarrow> False)"

definition is_zero :: "double \<Rightarrow> bool" where
  "is_zero u = (case u of Finite s m \<Rightarrow> m = 0 | _ \<Rightarrow> False)"

definition ordinary :: "double \<Rightarrow> bool" where
  "ordinary u = (case u of Finite s m \<Rightarrow> 0 \<le> m \<and> round_mag m = Some m \<and> \<not> (s \<and> m = 0)
     | _ \<Rightarrow> False)"

definition weighted_sum :: "'a number_ops \<Rightarrow> 'a \<Rightarrow> 'a" where
  "weighted_sum A k =
     n_add A (n_add A (n_add A k (n_mul A (n_lit A 2) k)) (n_mul A (n_lit A 2) k)) k"

definition absorbs :: "'a number_ops \<Rightarrow> 'a \<Rightarrow> 'a \<Rightarrow> 'a \<Rightarrow> bool" where
  "absorbs A h y k \<longleftrightarrow>
     n_add A y (n_div A (n_mul A k h) (n_lit A 2)) = y \<and>
     n_add A y (n_mul A k h) = y \<and>
     n_add A y (n_div A (n_mul A (weighted_sum A k) h) (n_lit A 6)) = y"

definition no_overflow2D :: "double number_ops \<Rightarrow> double \<times> double \<Rightarrow> bool" where
  "no_overflow2D A k = (case k of (k0, k1) \<Rightarrow>
     is_finite (weighted_sum A k0) \<and> is_finite (weighted_sum A k1))"

definition no_overflow3D :: "double number_ops \<Rightarrow> double \<times> double \<times> double \<Rightarrow> bool" where
  "no_overflow3D A k = (case k of (k0, k1, k2) \<Rightarrow>
     is_finite (weighted_sum A k0) \<and> is_finite (weighted_sum A k1) \<and>
     is_finite (weighted_sum A k2))"

definition no_approx :: "rat \<Rightarrow> bool \<times> rat" where
  "no_approx q = (False, 0)"

section \<open>Lemmas about the loops\<close>

lemma length_orbit [simp]: "length (orbit k g s) = k"
  by (induction k arbitrary: s) auto

lemma rk4Step3D_autonomous:
  "autonomous f \<Longrightarrow> rk4Step3D A f t y h = rk4Step3D A f t' y h"
proof -
  assume au: "autonomous f"
  obtain y0 y1 y2 where y: "y = (y0, y1, y2)" by (cases y) auto
  have e: "\<And>u v. f u v = f t v" using au unfolding autonomous_def by blast
  show ?thesis unfolding y rk4Step3D.simps
    by (subst (1 2 3 4 5 6 7 8) e) (rule refl)
qed

lemma rk4Step2D_autonomous:
  "autonomous f \<Longrightarrow> rk4Step2D A f t y h = rk4Step2D A f t' y h"
proof -
  assume au: "autonomous f"
  obtain y0 y1 where y: "y = (y0, y1)" by (cases y) auto
  have e: "\<And>u v. f u v = f t v" using au unfolding autonomous_def by blast
  show ?thesis unfolding y rk4Step2D.simps
    by (subst (1 2 3 4 5 6 7 8) e) (rule refl)
qed

lemma for_loop3D_orbit:
  assumes "autonomous f"
  shows "for_loop3D A f h n i s t pts =
     pts @ map point3D (orbit (nat (n - i)) (\<lambda>y. rk4Step3D A f t0 y h) s)"
  using assms
proof (induction A f h n i s t pts rule: for_loop3D.induct)
  case (1 A f h n i s t pts)
  show ?case
  proof (cases "i < n")
    case False
    then show ?thesis by (simp add: for_loop3D.simps)
  next
    case True
    obtain s0 s1 s2 where st: "rk4Step3D A f t s h = (s0, s1, s2)"
      by (cases "rk4Step3D A f t s h") auto
    have st0: "rk4Step3D A f t0 s h = (s0, s1, s2)"
      using st rk4Step3D_autonomous [OF "1.prems", of A t0 s h t] by simp
    have n: "nat (n - i) = Suc (nat (n - (i + 1)))" using True by simp
    have "for_loop3D A f h n i s t pts =
        for_loop3D A f h n (i + 1) (s0, s1, s2) (n_add A t h) (pts @ [Vector3 s0 s1 s2])"
      using True st by (subst for_loop3D.simps) simp
    also have "\<dots> = (pts @ [Vector3 s0 s1 s2]) @
        map point3D (orbit (nat (n - (i + 1))) (\<lambda>y. rk4Step3D A f t0 y h) (s0, s1, s2))"
      using "1.IH" [OF True st [symmetric] refl "1.prems"] by simp
    finally show ?thesis unfolding n by (simp add: st0)
  qed
qed


lemma for_loop2D_orbit:
  assumes "autonomous f"
  shows "for_loop2D A f h n i s t pts =
     pts @ map (point2D A) (orbit (nat (n - i)) (\<lambda>y. rk4Step2D A f t0 y h) s)"
  using assms
proof (induction A f h n i s t pts rule: for_loop2D.induct)
  case (1 A f h n i s t pts)
  show ?case
  proof (cases "i < n")
    case False
    then show ?thesis by (simp add: for_loop2D.simps)
  next
    case True
    obtain s0 s1 where st: "rk4Step2D A f t s h = (s0, s1)"
      by (cases "rk4Step2D A f t s h") auto
    have st0: "rk4Step2D A f t0 s h = (s0, s1)"
      using st rk4Step2D_autonomous [OF "1.prems", of A t0 s h t] by simp
    have n: "nat (n - i) = Suc (nat (n - (i + 1)))" using True by simp
    have "for_loop2D A f h n i s t pts =
        for_loop2D A f h n (i + 1) (s0, s1) (n_add A t h) (pts @ [Vector3 s0 s1 (n_lit A 0)])"
      using True st by (subst for_loop2D.simps) simp
    also have "\<dots> = (pts @ [Vector3 s0 s1 (n_lit A 0)]) @
        map (point2D A) (orbit (nat (n - (i + 1))) (\<lambda>y. rk4Step2D A f t0 y h) (s0, s1))"
      using "1.IH" [OF True st [symmetric] "1.prems"] by simp
    finally show ?thesis unfolding n by (simp add: st0)
  qed
qed

lemma autonomous_lorenz: "autonomous (lorenzDerivative A p q r)"
  unfolding autonomous_def by (auto simp: split_paired_all)

lemma autonomous_rossler: "autonomous (rosslerDerivative A p q r)"
  unfolding autonomous_def by (auto simp: split_paired_all)

lemma autonomous_van_der_pol: "autonomous (vanDerPolDerivative A p)"
  unfolding autonomous_def by (auto simp: split_paired_all)

lemma autonomous_damped_pendulum: "autonomous (dampedPendulumDerivative A p q)"
  unfolding autonomous_def by (auto simp: split_paired_all)

lemma solveLorenz_trajectory:
  "solveLorenz A p = trajectory point3D
     (\<lambda>y. rk4Step3D A (lorenzDerivative A (sigma p) (rho p) (beta p)) t0 y (lorenz_params.dt p))
     (lorenz_params.x0 p, lorenz_params.y0 p, lorenz_params.z0 p) (lorenz_params.steps p)"
  unfolding solveLorenz_def trajectory_def Let_def
  by (simp add: for_loop3D_orbit [OF autonomous_lorenz, where ?t0.0 = t0])

lemma solveRossler_trajectory:
  "solveRossler A p = trajectory point3D
     (\<lambda>y. rk4Step3D A (rosslerDerivative A (a p) (b p) (c p)) t0 y (rossler_params.dt p))
     (rossler_params.x0 p, rossler_params.y0 p, rossler_params.z0 p) (rossler_params.steps p)"
  unfolding solveRossler_def trajectory_def Let_def
  by (simp add: for_loop3D_orbit [OF autonomous_rossler, where ?t0.0 = t0])

lemma solveVanDerPol_trajectory:
  "solveVanDerPol A p = trajectory (point2D A)
     (\<lambda>y. rk4Step2D A (vanDerPolDerivative A (mu p)) t0 y (van_der_pol_params.dt p))
     (van_der_pol_params.x0 p, van_der_pol_params.y0 p) (van_der_pol_params.steps p)"
  unfolding solveVanDerPol_def trajectory_def Let_def
  by (simp add: for_loop2D_orbit [OF autonomous_van_der_pol, where ?t0.0 = t0])

lemma solveDampedPendulum_trajectory:
  "solveDampedPendulum A p = trajectory (point2D A)
     (\<lambda>y. rk4Step2D A (dampedPendulumDerivative A (gamma p) (omega0 p)) t0 y (damped_pendulum_params.dt p))
     (theta0 p, omegaInit p) (damped_pendulum_params.steps p)"
  unfolding solveDampedPendulum_def trajectory_def Let_def
  by (simp add: for_loop2D_orbit [OF autonomous_damped_pendulum, where ?t0.0 = t0])

lemma length_trajectory: "length (trajectory pt g s n) = nat n + 1"
  by (simp add: trajectory_def)

lemma trajectory_first: "trajectory pt g s n ! 0 = pt s"
  by (simp add: trajectory_def)

lemma orbit_succ: "k < n \<Longrightarrow> (s # orbit n g s) ! Suc k = g ((s # orbit n g s) ! k)"
proof (induction n arbitrary: s k)
  case 0
  then show ?case by simp
next
  case (Suc n)
  show ?case
  proof (cases k)
    case 0
    then show ?thesis by simp
  next
    case (Suc j)
    then have "j < n" using Suc.prems by simp
    from Suc.IH [OF this, of "g s"] show ?thesis using Suc by simp
  qed
qed

lemma orbit_drop:
  "k \<le> n \<Longrightarrow> drop k (s # orbit n g s) =
     (s # orbit n g s) ! k # orbit (n - k) g ((s # orbit n g s) ! k)"
proof (induction k arbitrary: s n)
  case 0
  then show ?case by simp
next
  case (Suc k)
  then obtain m where n: "n = Suc m" by (cases n) auto
  then have "k \<le> m" using Suc.prems by simp
  from Suc.IH [OF this, of "g s"] show ?case by (simp add: n)
qed


lemma trajectory_succ:
  "0 \<le> k \<Longrightarrow> k < n \<Longrightarrow> (\<And>y. st (pt y) = y) \<Longrightarrow>
     trajectory pt g s n ! nat (k + 1) = pt (g (st (trajectory pt g s n ! nat k)))"
proof -
  assume k: "0 \<le> k" "k < n" and inv: "\<And>y. st (pt y) = y"
  have lt: "nat k < nat n" using k by simp
  have "nat (k + 1) = Suc (nat k)" using k by simp
  moreover have "Suc (nat k) < length (s # orbit (nat n) g s)" "nat k < length (s # orbit (nat n) g s)"
    using k by auto
  ultimately show ?thesis
    unfolding trajectory_def using orbit_succ [OF lt, of s g] inv
    by (simp only: nth_map) 
qed

lemma trajectory_drop:
  assumes "0 \<le> k" "k \<le> n" and inv: "\<And>y. st (pt y) = y"
  shows "trajectory pt g (st (trajectory pt g s n ! nat k)) (n - k) = drop (nat k) (trajectory pt g s n)"
proof -
  have le: "nat k \<le> nat n" using assms by simp
  have len: "nat k < length (s # orbit (nat n) g s)" using assms by auto
  have e: "st (trajectory pt g s n ! nat k) = (s # orbit (nat n) g s) ! nat k"
    unfolding trajectory_def using len inv by (simp only: nth_map)
  have d: "nat (n - k) = nat n - nat k" using assms by simp
  show ?thesis
    unfolding e unfolding trajectory_def drop_map orbit_drop [OF le] d ..
qed

lemma state3D_point3D: "state3D (point3D y) = y"
  by (cases y) (simp add: state3D_def)

lemma state2D_point2D: "state2D (point2D A y) = y"
  by (cases y) (simp add: state2D_def)

lemma real_ops_simps [simp]:
  "n_add real_ops = (+)" "n_sub real_ops = (-)" "n_mul real_ops = (*)" "n_div real_ops = (/)"
  "n_neg real_ops = uminus" "n_sin real_ops = sin" "n_lit real_ops = of_int"
  by (simp_all add: real_ops_def)

text \<open>
  The time handed to the stepper. For an arbitrary derivative function, also one that
  reads its time argument, the loops are orbits of the timed step, and in exact
  arithmetic the time at the pass that produces point \<open>i\<close> is \<open>(i - 1) * dt\<close>.
\<close>

lemma for_loop3D_timed:
  "for_loop3D A f h n i s t pts =
     pts @ map (point3D \<circ> fst) (orbit (nat (n - i)) (timed_step3D A f h) (s, t))"
proof (induction A f h n i s t pts rule: for_loop3D.induct)
  case (1 A f h n i s t pts)
  show ?case
  proof (cases "i < n")
    case False
    then show ?thesis by (simp add: for_loop3D.simps)
  next
    case True
    obtain s0 s1 s2 where st: "rk4Step3D A f t s h = (s0, s1, s2)"
      by (cases "rk4Step3D A f t s h") auto
    have n: "nat (n - i) = Suc (nat (n - (i + 1)))" using True by simp
    have "for_loop3D A f h n i s t pts =
        for_loop3D A f h n (i + 1) (s0, s1, s2) (n_add A t h) (pts @ [Vector3 s0 s1 s2])"
      using True st by (subst for_loop3D.simps) simp
    also have "\<dots> = (pts @ [Vector3 s0 s1 s2]) @ map (point3D \<circ> fst)
        (orbit (nat (n - (i + 1))) (timed_step3D A f h) ((s0, s1, s2), n_add A t h))"
      using "1.IH" [OF True st [symmetric] refl] by simp
    finally show ?thesis unfolding n by (simp add: st)
  qed
qed

lemma for_loop2D_timed:
  "for_loop2D A f h n i s t pts =
     pts @ map (point2D A \<circ> fst) (orbit (nat (n - i)) (timed_step2D A f h) (s, t))"
proof (induction A f h n i s t pts rule: for_loop2D.induct)
  case (1 A f h n i s t pts)
  show ?case
  proof (cases "i < n")
    case False
    then show ?thesis by (simp add: for_loop2D.simps)
  next
    case True
    obtain s0 s1 where st: "rk4Step2D A f t s h = (s0, s1)"
      by (cases "rk4Step2D A f t s h") auto
    have n: "nat (n - i) = Suc (nat (n - (i + 1)))" using True by simp
    have "for_loop2D A f h n i s t pts =
        for_loop2D A f h n (i + 1) (s0, s1) (n_add A t h) (pts @ [Vector3 s0 s1 (n_lit A 0)])"
      using True st by (subst for_loop2D.simps) simp
    also have "\<dots> = (pts @ [Vector3 s0 s1 (n_lit A 0)]) @ map (point2D A \<circ> fst)
        (orbit (nat (n - (i + 1))) (timed_step2D A f h) ((s0, s1), n_add A t h))"
      using "1.IH" [OF True st [symmetric]] by simp
    finally show ?thesis unfolding n by (simp add: st)
  qed
qed

lemma timed_orbit_time3D:
  "j \<le> k \<Longrightarrow> snd (((s, t) # orbit k (timed_step3D real_ops f h) (s, t)) ! j) = t + of_nat j * h"
proof (induction k arbitrary: s t j)
  case 0
  then show ?case by simp
next
  case (Suc k)
  show ?case
  proof (cases j)
    case 0
    then show ?thesis by simp
  next
    case (Suc i)
    then have "i \<le> k" using Suc.prems by simp
    from Suc.IH [OF this, of "rk4Step3D real_ops f t s h" "t + h"] show ?thesis
      using Suc by (simp add: algebra_simps)
  qed
qed

lemma timed_orbit_time2D:
  "j \<le> k \<Longrightarrow> snd (((s, t) # orbit k (timed_step2D real_ops f h) (s, t)) ! j) = t + of_nat j * h"
proof (induction k arbitrary: s t j)
  case 0
  then show ?case by simp
next
  case (Suc k)
  show ?case
  proof (cases j)
    case 0
    then show ?thesis by simp
  next
    case (Suc i)
    then have "i \<le> k" using Suc.prems by simp
    from Suc.IH [OF this, of "rk4Step2D real_ops f t s h" "t + h"] show ?thesis
      using Suc by (simp add: algebra_simps)
  qed
qed

lemma for_loop3D_time_exact:
  assumes "1 \<le> i" "i \<le> n"
  shows "for_loop3D real_ops f h n 0 s 0 [point3D s] ! nat i =
     point3D (rk4Step3D real_ops f (of_int (i - 1) * h)
       (state3D (for_loop3D real_ops f h n 0 s 0 [point3D s] ! nat (i - 1))) h)"
proof -
  let ?G = "timed_step3D real_ops f h"
  let ?L = "(s, 0) # orbit (nat n) ?G (s, 0)"
  have L: "for_loop3D real_ops f h n 0 s 0 [point3D s] = map (point3D \<circ> fst) ?L"
    by (simp add: for_loop3D_timed)
  have lt: "nat (i - 1) < nat n" using assms by simp
  have i: "nat i = Suc (nat (i - 1))" using assms by simp
  have len: "nat (i - 1) < length ?L" "Suc (nat (i - 1)) < length ?L" using assms by auto
  obtain u t where ut: "?L ! nat (i - 1) = (u, t)" by (cases "?L ! nat (i - 1)") auto
  have "t = 0 + of_nat (nat (i - 1)) * h"
    using timed_orbit_time3D [of "nat (i - 1)" "nat n" s 0 f h] lt ut by simp
  then have t: "t = of_int (i - 1) * h" using assms by simp
  have "?L ! Suc (nat (i - 1)) = ?G (?L ! nat (i - 1))" by (rule orbit_succ [OF lt])
  then have nxt: "?L ! Suc (nat (i - 1)) = (rk4Step3D real_ops f t u h, t + h)" by (simp add: ut)
  have p: "map (point3D \<circ> fst) ?L ! nat (i - 1) = point3D u"
    using len(1) ut by (simp only: nth_map o_apply fst_conv)
  have q: "map (point3D \<circ> fst) ?L ! Suc (nat (i - 1)) = point3D (rk4Step3D real_ops f t u h)"
    using len(2) nxt by (simp only: nth_map o_apply fst_conv)
  show ?thesis
    unfolding L i p q state3D_point3D t ..
qed

lemma for_loop2D_time_exact:
  assumes "1 \<le> i" "i \<le> n"
  shows "for_loop2D real_ops f h n 0 s 0 [point2D real_ops s] ! nat i =
     point2D real_ops (rk4Step2D real_ops f (of_int (i - 1) * h)
       (state2D (for_loop2D real_ops f h n 0 s 0 [point2D real_ops s] ! nat (i - 1))) h)"
proof -
  let ?G = "timed_step2D real_ops f h"
  let ?L = "(s, 0) # orbit (nat n) ?G (s, 0)"
  have L: "for_loop2D real_ops f h n 0 s 0 [point2D real_ops s] = map (point2D real_ops \<circ> fst) ?L"
    by (simp add: for_loop2D_timed)
  have lt: "nat (i - 1) < nat n" using assms by simp
  have i: "nat i = Suc (nat (i - 1))" using assms by simp
  have len: "nat (i - 1) < length ?L" "Suc (nat (i - 1)) < length ?L" using assms by auto
  obtain u t where ut: "?L ! nat (i - 1) = (u, t)" by (cases "?L ! nat (i - 1)") auto
  have "t = 0 + of_nat (nat (i - 1)) * h"
    using timed_orbit_time2D [of "nat (i - 1)" "nat n" s 0 f h] lt ut by simp
  then have t: "t = of_int (i - 1) * h" using assms by simp
  have "?L ! Suc (nat (i - 1)) = ?G (?L ! nat (i - 1))" by (rule orbit_succ [OF lt])
  then have nxt: "?L ! Suc (nat (i - 1)) = (rk4Step2D real_ops f t u h, t + h)" by (simp add: ut)
  have p: "map (point2D real_ops \<circ> fst) ?L ! nat (i - 1) = point2D real_ops u"
    using len(1) ut by (simp only: nth_map o_apply fst_conv)
  have q: "map (point2D real_ops \<circ> fst) ?L ! Suc (nat (i - 1)) = point2D real_ops (rk4Step2D real_ops f t u h)"
    using len(2) nxt by (simp only: nth_map o_apply fst_conv)
  show ?thesis
    unfolding L i p q state2D_point2D t ..
qed

section \<open>Lemmas about binary64\<close>

lemma pow2_pos: "0 < pow2 k"
  by (simp add: pow2_def)

lemma pow2_add: "0 \<le> j \<Longrightarrow> 0 \<le> k \<Longrightarrow> pow2 (j + k) = pow2 j * pow2 k"
  by (simp add: pow2_def nat_add_distrib power_add)

lemma pow2_le: "0 \<le> j \<Longrightarrow> 0 \<le> k \<Longrightarrow> pow2 j \<le> pow2 k \<longleftrightarrow> j \<le> k"
  by (simp add: pow2_def nat_le_eq_zle)

lemma round_half_even_int: "round_half_even (of_int n) = n"
  by (simp add: round_half_even_def)

lemma floor_log2_int:
  assumes "0 < n"
  shows "floor_log2 (of_int n) = bitlen n - 1"
proof -
  have b: "1 \<le> bitlen n" using assms bitlen_eq_zero_iff [of n] bitlen_nonneg [of n] by linarith
  have "2 ^ nat (bitlen n - 1) \<le> n" using bitlen_bounds [OF assms] by simp
  then have "(of_int (2 ^ nat (bitlen n - 1)) :: rat) \<le> of_int n" by (simp only: of_int_le_iff)
  then have "pow2 (bitlen n - 1) \<le> of_int n" using b by (simp add: pow2_def)
  moreover have "bitlen 1 = 1" by (simp add: bitlen_alt_def)
  ultimately show ?thesis by (simp add: floor_log2_def)
qed

lemma round_mag_int:
  assumes "0 \<le> n" "n < 2 ^ 53"
  shows "round_mag (of_int n) = Some (of_int n)"
proof (cases "n = 0")
  case True
  then show ?thesis by (simp add: round_mag_def)
next
  case False
  then have pos: "0 < n" using assms by simp
  define e where "e = bitlen n - 1"
  have e0: "0 \<le> e" using pos bitlen_eq_zero_iff [of n] bitlen_nonneg [of n] unfolding e_def by linarith
  have "bitlen n \<le> 53" using assms(2) by (simp add: bitlen_le_iff_power)
  then have e52: "e \<le> 52" by (simp add: e_def)
  have m: "max e (- 1022) = e" using e0 by simp
  have u: "pow2 (e - 52) = 1 / 2 ^ nat (52 - e)" using e52
    by (cases "e = 52") (simp_all add: pow2_def)
  have q: "of_int n / pow2 (e - 52) = (of_int (n * 2 ^ nat (52 - e)) :: rat)"
    by (simp add: u)
  have r: "of_int (round_half_even (of_int n / pow2 (e - 52))) * pow2 (e - 52) = (of_int n :: rat)"
    unfolding q round_half_even_int by (simp add: u)
  have "n < 2 ^ 1024" using assms(2) by (rule less_trans) simp
  then have "(of_int n :: rat) < of_int (2 ^ 1024)" by (simp only: of_int_less_iff)
  then have lt: "\<not> pow2 1024 \<le> (of_int n :: rat)" by (simp add: pow2_def)
  have nz: "(of_int n :: rat) \<noteq> 0" using pos by simp
  show ?thesis
    unfolding round_mag_def floor_log2_int [OF pos] e_def [symmetric] Let_def m r
    using nz lt by simp
qed

lemma floor_log2_pow2:
  assumes "0 \<le> k"
  shows "floor_log2 (pow2 k) = k"
proof -
  have p: "pow2 k = of_int (2 ^ nat k)" using assms by (simp add: pow2_def)
  have "bitlen (2 ^ nat k) = int (nat k) + 1"
    using bitlen_twopow_add_eq [of 0 "nat k"] by simp
  then show ?thesis unfolding p using assms by (subst floor_log2_int) simp_all
qed

lemma round_mag_pow2:
  assumes "52 \<le> k"
  shows "round_mag (pow2 k) = (if 1024 \<le> k then None else Some (pow2 k))"
proof -
  have k0: "0 \<le> k" using assms by simp
  have m: "max k (- 1022) = k" using assms by simp
  have s: "pow2 k = pow2 52 * pow2 (k - 52)" using pow2_add [of 52 "k - 52"] assms by simp
  then have q: "pow2 k / pow2 (k - 52) = of_int (2 ^ 52)"
    using pow2_pos [of "k - 52"] by (simp add: pow2_def)
  have r: "of_int (round_half_even (pow2 k / pow2 (k - 52))) * pow2 (k - 52) = pow2 k"
    unfolding q round_half_even_int using s by (simp add: pow2_def)
  have nz: "pow2 k \<noteq> 0" using pow2_pos [of k] by simp
  show ?thesis
    unfolding round_mag_def floor_log2_pow2 [OF k0] Let_def m r
    using nz k0 by (simp add: pow2_le)
qed

lemma round_mag_numeral:
  "(numeral k :: int) < 2 ^ 53 \<Longrightarrow> round_mag (numeral k) = Some (numeral k)"
  using round_mag_int [of "numeral k"] by simp

lemma round_mag_0: "round_mag 0 = Some 0"
  by (simp add: round_mag_def)

lemma round_mag_1: "round_mag 1 = Some 1"
  using round_mag_int [of 1] by simp

lemma ieee_ops_simps [simp]:
  "n_add (ieee_ops ap) = d_add" "n_sub (ieee_ops ap) = d_sub" "n_mul (ieee_ops ap) = d_mul"
  "n_div (ieee_ops ap) = d_div" "n_neg (ieee_ops ap) = d_neg"
  "n_sin (ieee_ops ap) = math_sin ap" "n_lit (ieee_ops ap) = d_lit"
  by (simp_all add: ieee_ops_def)

lemma d_lit_values:
  "d_lit 0 = Finite False 0" "d_lit 1 = Finite False 1"
  "d_lit 2 = Finite False 2" "d_lit 6 = Finite False 6"
  by (simp_all add: d_lit_def fl_def round_mag_0 round_mag_1 round_mag_numeral)

lemma is_finite_add_right: "is_finite (d_add u v) \<Longrightarrow> is_finite v"
  by (cases u; cases v) (auto simp: is_finite_def split: if_splits)

lemma is_finite_weighted: "is_finite (weighted_sum (ieee_ops ap) k) \<Longrightarrow> is_finite k"
  unfolding weighted_sum_def by (simp only: ieee_ops_simps) (rule is_finite_add_right)

lemma is_zero_mul: "is_finite k \<Longrightarrow> is_zero h \<Longrightarrow> is_zero (d_mul k h)"
  by (cases k; cases h) (simp_all add: is_finite_def is_zero_def fl_def round_mag_0)

lemma is_zero_div:
  "is_zero u \<Longrightarrow> is_zero (d_div u (d_lit 2))" "is_zero u \<Longrightarrow> is_zero (d_div u (d_lit 6))"
  by (cases u; simp add: is_zero_def d_lit_values fl_def round_mag_0)+

lemma add_zero_ordinary: "ordinary y \<Longrightarrow> is_zero u \<Longrightarrow> d_add y u = y"
  by (cases y; cases u)
    (auto simp: ordinary_def is_zero_def signed_def fl_def Let_def split: if_splits)

lemma absorbs_ieee:
  assumes "ordinary y" "is_zero h" "is_finite (weighted_sum (ieee_ops ap) k)"
  shows "absorbs (ieee_ops ap) h y k"
proof -
  have k: "is_finite k" using assms(3) by (rule is_finite_weighted)
  show ?thesis
    unfolding absorbs_def
    by (simp only: ieee_ops_simps)
      (intro conjI add_zero_ordinary assms(1) is_zero_div is_zero_mul k assms(2) assms(3))
qed

lemma absorbs_real: "absorbs real_ops 0 y k"
  by (simp add: absorbs_def)

lemma rk4Step3D_fixed:
  assumes au: "autonomous f"
    and k: "f t (u0, u1, u2) = (k0, k1, k2)"
    and a: "absorbs A h u0 k0" "absorbs A h u1 k1" "absorbs A h u2 k2"
  shows "rk4Step3D A f t (u0, u1, u2) h = (u0, u1, u2)"
proof -
  have e: "f u (u0, u1, u2) = (k0, k1, k2)" for u
    using au k unfolding autonomous_def by metis
  show ?thesis
    using a unfolding absorbs_def weighted_sum_def rk4Step3D.simps
    by (simp add: e)
qed

lemma rk4Step2D_fixed:
  assumes au: "autonomous f"
    and k: "f t (u0, u1) = (k0, k1)"
    and a: "absorbs A h u0 k0" "absorbs A h u1 k1"
  shows "rk4Step2D A f t (u0, u1) h = (u0, u1)"
proof -
  have e: "f u (u0, u1) = (k0, k1)" for u
    using au k unfolding autonomous_def by metis
  show ?thesis
    using a unfolding absorbs_def weighted_sum_def rk4Step2D.simps
    by (simp add: e)
qed

lemma orbit_fixed: "g s = s \<Longrightarrow> orbit n g s = replicate n s"
  by (induction n) simp_all

lemma trajectory_fixed: "g s = s \<Longrightarrow> trajectory pt g s n = replicate (nat n + 1) (pt s)"
  by (simp add: trajectory_def orbit_fixed)

lemma two_1023: "(2::rat) ^ 1023 = pow2 1023"
  by (simp add: pow2_def)

lemma twice_pow2_1023: "2 * pow2 1023 = pow2 1024"
  using pow2_add [of 1 1023] by (simp add: pow2_def)

lemma pow2_nz: "pow2 k \<noteq> 0" "(pow2 k = 0) = False"
  using pow2_pos [of k] by simp_all

lemmas d_eval = d_sub_def signed_def fl_def Let_def d_lit_values round_mag_0 round_mag_1
  round_mag_numeral

lemma lorenz_overflow_step1:
  "rk4Step3D (ieee_ops ap)
     (lorenzDerivative (ieee_ops ap) (Finite False (pow2 1023)) (Finite False 0) (Finite False 0))
     t (Finite False 0, Finite False 1, Finite False 0) (Finite False 0) =
   (NaN, Finite False 1, Finite False 0)"
  by (simp add: d_eval round_mag_pow2 twice_pow2_1023 pow2_nz)

lemma lorenz_overflow_step2:
  "rk4Step3D (ieee_ops ap)
     (lorenzDerivative (ieee_ops ap) (Finite False (pow2 1023)) (Finite False 0) (Finite False 0))
     t (NaN, Finite False 1, Finite False 0) (Finite False 0) =
   (NaN, NaN, NaN)"
  by (simp add: d_eval round_mag_pow2 twice_pow2_1023 pow2_nz)

lemma lorenz_overflow_run:
  "solveLorenz (ieee_ops ap)
     \<lparr>sigma = Finite False (pow2 1023), rho = Finite False 0, beta = Finite False 0,
      x0 = Finite False 0, y0 = Finite False 1, z0 = Finite False 0,
      dt = Finite False 0, steps = 2\<rparr> =
   [Vector3 (Finite False 0) (Finite False 1) (Finite False 0),
    Vector3 NaN (Finite False 1) (Finite False 0),
    Vector3 NaN NaN NaN]"
  unfolding solveLorenz_def
  by (simp add: for_loop3D.simps lorenz_overflow_step1 lorenz_overflow_step2
      del: rk4Step3D.simps lorenzDerivative.simps)

lemma lorenz_zero_step:
  assumes "is_zero (lorenz_params.dt pl)" "ordinary (lorenz_params.x0 pl)"
    "ordinary (lorenz_params.y0 pl)" "ordinary (lorenz_params.z0 pl)"
    "no_overflow3D (ieee_ops ap) (lorenzDerivative (ieee_ops ap) (sigma pl) (rho pl) (beta pl)
       (d_lit 0) (lorenz_params.x0 pl, lorenz_params.y0 pl, lorenz_params.z0 pl))"
  shows "solveLorenz (ieee_ops ap) pl = replicate (nat (lorenz_params.steps pl) + 1)
     (Vector3 (lorenz_params.x0 pl) (lorenz_params.y0 pl) (lorenz_params.z0 pl))"
proof -
  let ?f = "lorenzDerivative (ieee_ops ap) (sigma pl) (rho pl) (beta pl)"
  let ?s = "(lorenz_params.x0 pl, lorenz_params.y0 pl, lorenz_params.z0 pl)"
  obtain k0 k1 k2 where k: "?f (d_lit 0) ?s = (k0, k1, k2)"
    by (cases "?f (d_lit 0) ?s") auto
  have fin: "is_finite (weighted_sum (ieee_ops ap) k0)" "is_finite (weighted_sum (ieee_ops ap) k1)"
    "is_finite (weighted_sum (ieee_ops ap) k2)"
    using assms(5) unfolding k no_overflow3D_def by simp_all
  have "rk4Step3D (ieee_ops ap) ?f (d_lit 0) ?s (lorenz_params.dt pl) = ?s"
    by (rule rk4Step3D_fixed [OF autonomous_lorenz k])
      (rule absorbs_ieee [OF _ assms(1)], fact, fact)+
  then show ?thesis
    unfolding solveLorenz_trajectory [where ?t0.0 = "d_lit 0"]
    by (subst trajectory_fixed) simp_all
qed

lemma rossler_zero_step:
  assumes "is_zero (rossler_params.dt pr)" "ordinary (rossler_params.x0 pr)"
    "ordinary (rossler_params.y0 pr)" "ordinary (rossler_params.z0 pr)"
    "no_overflow3D (ieee_ops ap) (rosslerDerivative (ieee_ops ap) (a pr) (b pr) (c pr)
       (d_lit 0) (rossler_params.x0 pr, rossler_params.y0 pr, rossler_params.z0 pr))"
  shows "solveRossler (ieee_ops ap) pr = replicate (nat (rossler_params.steps pr) + 1)
     (Vector3 (rossler_params.x0 pr) (rossler_params.y0 pr) (rossler_params.z0 pr))"
proof -
  let ?f = "rosslerDerivative (ieee_ops ap) (a pr) (b pr) (c pr)"
  let ?s = "(rossler_params.x0 pr, rossler_params.y0 pr, rossler_params.z0 pr)"
  obtain k0 k1 k2 where k: "?f (d_lit 0) ?s = (k0, k1, k2)"
    by (cases "?f (d_lit 0) ?s") auto
  have fin: "is_finite (weighted_sum (ieee_ops ap) k0)" "is_finite (weighted_sum (ieee_ops ap) k1)"
    "is_finite (weighted_sum (ieee_ops ap) k2)"
    using assms(5) unfolding k no_overflow3D_def by simp_all
  have "rk4Step3D (ieee_ops ap) ?f (d_lit 0) ?s (rossler_params.dt pr) = ?s"
    by (rule rk4Step3D_fixed [OF autonomous_rossler k])
      (rule absorbs_ieee [OF _ assms(1)], fact, fact)+
  then show ?thesis
    unfolding solveRossler_trajectory [where ?t0.0 = "d_lit 0"]
    by (subst trajectory_fixed) simp_all
qed

lemma van_der_pol_zero_step:
  assumes "is_zero (van_der_pol_params.dt pv)" "ordinary (van_der_pol_params.x0 pv)"
    "ordinary (van_der_pol_params.y0 pv)"
    "no_overflow2D (ieee_ops ap) (vanDerPolDerivative (ieee_ops ap) (mu pv)
       (d_lit 0) (van_der_pol_params.x0 pv, van_der_pol_params.y0 pv))"
  shows "solveVanDerPol (ieee_ops ap) pv = replicate (nat (van_der_pol_params.steps pv) + 1)
     (Vector3 (van_der_pol_params.x0 pv) (van_der_pol_params.y0 pv) (d_lit 0))"
proof -
  let ?f = "vanDerPolDerivative (ieee_ops ap) (mu pv)"
  let ?s = "(van_der_pol_params.x0 pv, van_der_pol_params.y0 pv)"
  obtain k0 k1 where k: "?f (d_lit 0) ?s = (k0, k1)"
    by (cases "?f (d_lit 0) ?s") auto
  have fin: "is_finite (weighted_sum (ieee_ops ap) k0)" "is_finite (weighted_sum (ieee_ops ap) k1)"
    using assms(4) unfolding k no_overflow2D_def by simp_all
  have "rk4Step2D (ieee_ops ap) ?f (d_lit 0) ?s (van_der_pol_params.dt pv) = ?s"
    by (rule rk4Step2D_fixed [OF autonomous_van_der_pol k])
      (rule absorbs_ieee [OF _ assms(1)], fact, fact)+
  then show ?thesis
    unfolding solveVanDerPol_trajectory [where ?t0.0 = "d_lit 0"]
    by (subst trajectory_fixed) simp_all
qed

lemma damped_pendulum_zero_step:
  assumes "is_zero (damped_pendulum_params.dt pd)" "ordinary (theta0 pd)"
    "ordinary (omegaInit pd)"
    "no_overflow2D (ieee_ops ap) (dampedPendulumDerivative (ieee_ops ap) (gamma pd) (omega0 pd)
       (d_lit 0) (theta0 pd, omegaInit pd))"
  shows "solveDampedPendulum (ieee_ops ap) pd = replicate (nat (damped_pendulum_params.steps pd) + 1)
     (Vector3 (theta0 pd) (omegaInit pd) (d_lit 0))"
proof -
  let ?f = "dampedPendulumDerivative (ieee_ops ap) (gamma pd) (omega0 pd)"
  let ?s = "(theta0 pd, omegaInit pd)"
  obtain k0 k1 where k: "?f (d_lit 0) ?s = (k0, k1)"
    by (cases "?f (d_lit 0) ?s") auto
  have fin: "is_finite (weighted_sum (ieee_ops ap) k0)" "is_finite (weighted_sum (ieee_ops ap) k1)"
    using assms(4) unfolding k no_overflow2D_def by simp_all
  have "rk4Step2D (ieee_ops ap) ?f (d_lit 0) ?s (damped_pendulum_params.dt pd) = ?s"
    by (rule rk4Step2D_fixed [OF autonomous_damped_pendulum k])
      (rule absorbs_ieee [OF _ assms(1)], fact, fact)+
  then show ?thesis
    unfolding solveDampedPendulum_trajectory [where ?t0.0 = "d_lit 0"]
    by (subst trajectory_fixed) simp_all
qed

text \<open>
  In exact real arithmetic the step with \<open>dt = 0\<close> is the identity for all parameters and
  states, and the trajectory is constant.
\<close>

lemma zero_step_exact:
  "(lorenz_params.dt pl = 0 \<longrightarrow> solveLorenz real_ops pl =
      replicate (nat (lorenz_params.steps pl) + 1)
        (Vector3 (lorenz_params.x0 pl) (lorenz_params.y0 pl) (lorenz_params.z0 pl))) \<and>
   (van_der_pol_params.dt pv = 0 \<longrightarrow> solveVanDerPol real_ops pv =
      replicate (nat (van_der_pol_params.steps pv) + 1)
        (Vector3 (van_der_pol_params.x0 pv) (van_der_pol_params.y0 pv) 0)) \<and>
   (damped_pendulum_params.dt pd = 0 \<longrightarrow> solveDampedPendulum real_ops pd =
      replicate (nat (damped_pendulum_params.steps pd) + 1)
        (Vector3 (theta0 pd) (omegaInit pd) 0)) \<and>
   (rossler_params.dt pr = 0 \<longrightarrow> solveRossler real_ops pr =
      replicate (nat (rossler_params.steps pr) + 1)
        (Vector3 (rossler_params.x0 pr) (rossler_params.y0 pr) (rossler_params.z0 pr)))"
proof -
  have s3: "autonomous f \<Longrightarrow> rk4Step3D real_ops f t u 0 = u" for f t and u :: "real \<times> real \<times> real"
  proof -
    assume au: "autonomous f"
    obtain u0 u1 u2 where u: "u = (u0, u1, u2)" by (cases u) auto
    obtain k0 k1 k2 where k: "f t (u0, u1, u2) = (k0, k1, k2)" by (cases "f t (u0, u1, u2)") auto
    show ?thesis unfolding u by (rule rk4Step3D_fixed [OF au k]) (rule absorbs_real)+
  qed
  have s2: "autonomous f \<Longrightarrow> rk4Step2D real_ops f t u 0 = u" for f t and u :: "real \<times> real"
  proof -
    assume au: "autonomous f"
    obtain u0 u1 where u: "u = (u0, u1)" by (cases u) auto
    obtain k0 k1 where k: "f t (u0, u1) = (k0, k1)" by (cases "f t (u0, u1)") auto
    show ?thesis unfolding u by (rule rk4Step2D_fixed [OF au k]) (rule absorbs_real)+
  qed
  show ?thesis
    unfolding solveLorenz_trajectory [where ?t0.0 = 0] solveVanDerPol_trajectory [where ?t0.0 = 0]
      solveDampedPendulum_trajectory [where ?t0.0 = 0] solveRossler_trajectory [where ?t0.0 = 0]
    by (auto simp: trajectory_fixed s3 s2 autonomous_lorenz autonomous_van_der_pol
        autonomous_damped_pendulum autonomous_rossler simp del: replicate.simps)
qed

lemma ordinary_values:
  "ordinary (Finite False 0)" "ordinary (Finite s 1)"
  "(numeral k :: int) < 2 ^ 53 \<Longrightarrow> ordinary (Finite s (numeral k))"
  by (simp_all add: ordinary_def round_mag_0 round_mag_1 round_mag_numeral)

lemma math_sin_zero: "math_sin ap (Finite s 0) = Finite s 0"
  by (simp add: math_sin_def)

text \<open>
  Read in exact real arithmetic, these are the vector fields in the notation of the
  specification's table.
\<close>

lemma table_fields_exact:
  "lorenzDerivative real_ops \<sigma> \<rho> \<beta> t (x, y, z) =
     (\<sigma> * (y - x), x * (\<rho> - z) - y, x * y - \<beta> * z) \<and>
   vanDerPolDerivative real_ops \<mu> t (x, y) = (y, \<mu> * (1 - x\<^sup>2) * y - x) \<and>
   dampedPendulumDerivative real_ops \<gamma> \<omega>\<^sub>0 t (\<theta>, \<omega>) =
     (\<omega>, - \<gamma> * \<omega> - \<omega>\<^sub>0\<^sup>2 * sin \<theta>) \<and>
   rosslerDerivative real_ops p q r t (x, y, z) = (- y - z, x + p * y, q + z * (x - r))"
  by (simp add: power2_eq_square)

text \<open>
  In binary64 the order of the operators shows: with \<open>\<mu> = 2^1023\<close>, \<open>x = 3\<close> and
  \<open>y = 1/1024\<close> the product \<open>\<mu> * (1 - x * x)\<close> overflows before it is multiplied by \<open>y\<close>,
  and the second component is \<open>-Infinity\<close>.
\<close>

lemma eight_pow2_1023: "pow2 1023 * 8 = pow2 1026"
  using pow2_add [of 1023 3] by (simp add: pow2_def)

lemma van_der_pol_overflow_example:
  "vanDerPolDerivative (ieee_ops ap) (Finite False (2 ^ 1023)) t
     (Finite False 3, Finite False (1 / 1024)) =
   (Finite False (1 / 1024), Infinity True)"
  unfolding two_1023
  by (simp add: d_eval round_mag_pow2 eight_pow2_1023 pow2_nz)

section \<open>The claims\<close>

text \<open>
  C1. For every derivative function, time, state and step size, \<open>rk4Step2D\<close> and
  \<open>rk4Step3D\<close> return \<open>y + (k1 + 2*k2 + 2*k3 + k4)*dt/6\<close> computed element-wise with
  \<open>k1 = f(t, y)\<close>, \<open>k2 = f(t + dt/2, y + k1*dt/2)\<close>, \<open>k3 = f(t + dt/2, y + k2*dt/2)\<close>,
  \<open>k4 = f(t + dt, y + k3*dt)\<close>: both are the one scheme \<open>rk4_spec\<close>, at width 2 and at
  width 3, in every arithmetic.
\<close>

theorem rk4Step_scheme:
  "rk4Step2D A f t y h = rk4_spec each2 both2 A f t y h \<and>
   rk4Step3D A g t z h = rk4_spec each3 both3 A g t z h"
proof
  show "rk4Step2D A f t y h = rk4_spec each2 both2 A f t y h"
    unfolding rk4_spec_def Let_def
    by (cases y) (simp split: prod.splits)
  show "rk4Step3D A g t z h = rk4_spec each3 both3 A g t z h"
    unfolding rk4_spec_def Let_def
    by (cases z) (simp split: prod.splits)
qed

text \<open>
  C2. For every time argument and every state, in every arithmetic, the four
  constructors return the vector fields of the specification's table with the operators
  applied in the order of the source: Lorenz \<open>(\<sigma>*(y - x), x*(\<rho> - z) - y, x*y - \<beta>*z)\<close>,
  Van der Pol \<open>(y, (\<mu>*(1 - x*x))*y - x)\<close>, damped pendulum
  \<open>(\<omega>, (-\<gamma>)*\<omega> - (\<omega>\<^sub>0*\<omega>\<^sub>0)*sin \<theta>)\<close>, Rossler \<open>((-y) - z, x + a*y, b + z*(x - c))\<close>. The
  squares \<open>x\<^sup>2\<close> and \<open>\<omega>\<^sub>0\<^sup>2\<close> of the table are the products \<open>x*x\<close> and \<open>\<omega>\<^sub>0*\<omega>\<^sub>0\<close>.
\<close>

theorem derivative_vector_fields:
  "lorenzDerivative A \<sigma> \<rho> \<beta> t (x, y, z) =
     (n_mul A \<sigma> (n_sub A y x),
      n_sub A (n_mul A x (n_sub A \<rho> z)) y,
      n_sub A (n_mul A x y) (n_mul A \<beta> z)) \<and>
   vanDerPolDerivative A \<mu> t (x, y) =
     (y,
      n_sub A (n_mul A (n_mul A \<mu> (n_sub A (n_lit A 1) (n_mul A x x))) y) x) \<and>
   dampedPendulumDerivative A \<gamma> \<omega>\<^sub>0 t (\<theta>, \<omega>) =
     (\<omega>,
      n_sub A (n_mul A (n_neg A \<gamma>) \<omega>) (n_mul A (n_mul A \<omega>\<^sub>0 \<omega>\<^sub>0) (n_sin A \<theta>))) \<and>
   rosslerDerivative A p q r t (x, y, z) =
     (n_sub A (n_neg A y) z,
      n_add A x (n_mul A p y),
      n_add A q (n_mul A z (n_sub A x r)))"
  by simp

text \<open>
  C3. For a non-negative step count, each of the four solve functions returns exactly
  \<open>steps + 1\<close> points, whatever the parameters, the initial state and the step size.
\<close>

theorem solve_length:
  "(0 \<le> lorenz_params.steps pl \<longrightarrow>
      int (length (solveLorenz A pl)) = lorenz_params.steps pl + 1) \<and>
   (0 \<le> van_der_pol_params.steps pv \<longrightarrow>
      int (length (solveVanDerPol A pv)) = van_der_pol_params.steps pv + 1) \<and>
   (0 \<le> damped_pendulum_params.steps pd \<longrightarrow>
      int (length (solveDampedPendulum A pd)) = damped_pendulum_params.steps pd + 1) \<and>
   (0 \<le> rossler_params.steps pr \<longrightarrow>
      int (length (solveRossler A pr)) = rossler_params.steps pr + 1)"
  by (simp add: solveLorenz_trajectory [where ?t0.0 = undefined]
      solveVanDerPol_trajectory [where ?t0.0 = undefined]
      solveDampedPendulum_trajectory [where ?t0.0 = undefined]
      solveRossler_trajectory [where ?t0.0 = undefined] length_trajectory)

theorem solve_length_witness:
  "(0::int) \<le> 2 \<and>
   int (length (solveLorenz real_ops
     \<lparr>sigma = 10, rho = 28, beta = 8 / 3, x0 = 1, y0 = 1, z0 = 1, dt = 1 / 100, steps = 2\<rparr>)) = 3 \<and>
   int (length (solveVanDerPol real_ops
     \<lparr>mu = 3 / 2, x0 = 2, y0 = 0, dt = 1 / 50, steps = 2\<rparr>)) = 3 \<and>
   int (length (solveDampedPendulum real_ops
     \<lparr>gamma = 1 / 2, omega0 = 1, theta0 = 2, omegaInit = 0, dt = 1 / 50, steps = 2\<rparr>)) = 3 \<and>
   int (length (solveRossler real_ops
     \<lparr>a = 1 / 5, b = 1 / 5, c = 57 / 10, x0 = 1, y0 = 1, z0 = 1, dt = 1 / 50, steps = 2\<rparr>)) = 3"
  using solve_length [where A = real_ops
      and pl = "\<lparr>sigma = 10, rho = 28, beta = 8 / 3, x0 = 1, y0 = 1, z0 = 1, dt = 1 / 100, steps = 2\<rparr>"
      and pv = "\<lparr>mu = 3 / 2, x0 = 2, y0 = 0, dt = 1 / 50, steps = 2\<rparr>"
      and pd = "\<lparr>gamma = 1 / 2, omega0 = 1, theta0 = 2, omegaInit = 0, dt = 1 / 50, steps = 2\<rparr>"
      and pr = "\<lparr>a = 1 / 5, b = 1 / 5, c = 57 / 10, x0 = 1, y0 = 1, z0 = 1, dt = 1 / 50, steps = 2\<rparr>"]
  by simp

text \<open>
  C4. The first point of every returned trajectory is the supplied initial state:
  \<open>(x0, y0, z0)\<close> for Lorenz and Rossler, \<open>(x0, y0, 0)\<close> for Van der Pol and
  \<open>(theta0, omegaInit, 0)\<close> for the damped pendulum, the third coordinate of the
  2-dimensional systems being the literal \<open>0\<close>.
\<close>

theorem solve_first_point:
  "solveLorenz A pl ! 0 =
     Vector3 (lorenz_params.x0 pl) (lorenz_params.y0 pl) (lorenz_params.z0 pl) \<and>
   solveRossler A pr ! 0 =
     Vector3 (rossler_params.x0 pr) (rossler_params.y0 pr) (rossler_params.z0 pr) \<and>
   solveVanDerPol A pv ! 0 =
     Vector3 (van_der_pol_params.x0 pv) (van_der_pol_params.y0 pv) (n_lit A 0) \<and>
   solveDampedPendulum A pd ! 0 = Vector3 (theta0 pd) (omegaInit pd) (n_lit A 0)"
  by (simp add: solveLorenz_trajectory [where ?t0.0 = undefined]
      solveVanDerPol_trajectory [where ?t0.0 = undefined]
      solveDampedPendulum_trajectory [where ?t0.0 = undefined]
      solveRossler_trajectory [where ?t0.0 = undefined] trajectory_first)

text \<open>
  C5. For every system and every \<open>i\<close> with \<open>1 \<le> i \<le> steps\<close>, point \<open>i\<close> of the
  returned trajectory is the RK4 step applied to point \<open>i - 1\<close> with the system's
  derivative function, the step size \<open>dt\<close> and the time argument \<open>(i - 1) * dt\<close>.
  For the 2-dimensional systems the step acts on the first two coordinates of the
  point and the wrapper appends the literal \<open>0\<close>.
\<close>

theorem solve_step_relation:
  "(1 \<le> i \<and> i \<le> lorenz_params.steps pl \<longrightarrow>
      solveLorenz A pl ! nat i =
        point3D (rk4Step3D A (lorenzDerivative A (sigma pl) (rho pl) (beta pl))
          (n_mul A (n_lit A (i - 1)) (lorenz_params.dt pl))
          (state3D (solveLorenz A pl ! nat (i - 1))) (lorenz_params.dt pl))) \<and>
   (1 \<le> i \<and> i \<le> van_der_pol_params.steps pv \<longrightarrow>
      solveVanDerPol A pv ! nat i =
        point2D A (rk4Step2D A (vanDerPolDerivative A (mu pv))
          (n_mul A (n_lit A (i - 1)) (van_der_pol_params.dt pv))
          (state2D (solveVanDerPol A pv ! nat (i - 1))) (van_der_pol_params.dt pv))) \<and>
   (1 \<le> i \<and> i \<le> damped_pendulum_params.steps pd \<longrightarrow>
      solveDampedPendulum A pd ! nat i =
        point2D A (rk4Step2D A (dampedPendulumDerivative A (gamma pd) (omega0 pd))
          (n_mul A (n_lit A (i - 1)) (damped_pendulum_params.dt pd))
          (state2D (solveDampedPendulum A pd ! nat (i - 1))) (damped_pendulum_params.dt pd))) \<and>
   (1 \<le> i \<and> i \<le> rossler_params.steps pr \<longrightarrow>
      solveRossler A pr ! nat i =
        point3D (rk4Step3D A (rosslerDerivative A (a pr) (b pr) (c pr))
          (n_mul A (n_lit A (i - 1)) (rossler_params.dt pr))
          (state3D (solveRossler A pr ! nat (i - 1))) (rossler_params.dt pr)))"
proof (intro conjI impI)
  assume i: "1 \<le> i \<and> i \<le> lorenz_params.steps pl"
  then have "0 \<le> i - 1" "i - 1 < lorenz_params.steps pl" by simp_all
  from trajectory_succ [OF this, of state3D point3D, OF state3D_point3D]
  show "solveLorenz A pl ! nat i =
        point3D (rk4Step3D A (lorenzDerivative A (sigma pl) (rho pl) (beta pl))
          (n_mul A (n_lit A (i - 1)) (lorenz_params.dt pl))
          (state3D (solveLorenz A pl ! nat (i - 1))) (lorenz_params.dt pl))"
    by (simp add: solveLorenz_trajectory
        [where ?t0.0 = "n_mul A (n_lit A (i - 1)) (lorenz_params.dt pl)"])
next
  assume i: "1 \<le> i \<and> i \<le> van_der_pol_params.steps pv"
  then have "0 \<le> i - 1" "i - 1 < van_der_pol_params.steps pv" by simp_all
  from trajectory_succ [OF this, of state2D "point2D A", OF state2D_point2D]
  show "solveVanDerPol A pv ! nat i =
        point2D A (rk4Step2D A (vanDerPolDerivative A (mu pv))
          (n_mul A (n_lit A (i - 1)) (van_der_pol_params.dt pv))
          (state2D (solveVanDerPol A pv ! nat (i - 1))) (van_der_pol_params.dt pv))"
    by (simp add: solveVanDerPol_trajectory
        [where ?t0.0 = "n_mul A (n_lit A (i - 1)) (van_der_pol_params.dt pv)"])
next
  assume i: "1 \<le> i \<and> i \<le> damped_pendulum_params.steps pd"
  then have "0 \<le> i - 1" "i - 1 < damped_pendulum_params.steps pd" by simp_all
  from trajectory_succ [OF this, of state2D "point2D A", OF state2D_point2D]
  show "solveDampedPendulum A pd ! nat i =
        point2D A (rk4Step2D A (dampedPendulumDerivative A (gamma pd) (omega0 pd))
          (n_mul A (n_lit A (i - 1)) (damped_pendulum_params.dt pd))
          (state2D (solveDampedPendulum A pd ! nat (i - 1))) (damped_pendulum_params.dt pd))"
    by (simp add: solveDampedPendulum_trajectory
        [where ?t0.0 = "n_mul A (n_lit A (i - 1)) (damped_pendulum_params.dt pd)"])
next
  assume i: "1 \<le> i \<and> i \<le> rossler_params.steps pr"
  then have "0 \<le> i - 1" "i - 1 < rossler_params.steps pr" by simp_all
  from trajectory_succ [OF this, of state3D point3D, OF state3D_point3D]
  show "solveRossler A pr ! nat i =
        point3D (rk4Step3D A (rosslerDerivative A (a pr) (b pr) (c pr))
          (n_mul A (n_lit A (i - 1)) (rossler_params.dt pr))
          (state3D (solveRossler A pr ! nat (i - 1))) (rossler_params.dt pr))"
    by (simp add: solveRossler_trajectory
        [where ?t0.0 = "n_mul A (n_lit A (i - 1)) (rossler_params.dt pr)"])
qed

theorem solve_step_relation_witness:
  "(1::int) \<le> 2 \<and> (2::int) \<le> 2 \<and>
   solveLorenz real_ops
       \<lparr>sigma = 10, rho = 28, beta = 8 / 3, x0 = 1, y0 = 1, z0 = 1, dt = 1 / 100, steps = 2\<rparr> ! 2 =
     point3D (rk4Step3D real_ops (lorenzDerivative real_ops 10 28 (8 / 3)) (1 / 100)
       (state3D (solveLorenz real_ops
         \<lparr>sigma = 10, rho = 28, beta = 8 / 3, x0 = 1, y0 = 1, z0 = 1, dt = 1 / 100, steps = 2\<rparr> ! 1))
       (1 / 100)) \<and>
   solveVanDerPol real_ops \<lparr>mu = 3 / 2, x0 = 2, y0 = 0, dt = 1 / 50, steps = 2\<rparr> ! 2 =
     point2D real_ops (rk4Step2D real_ops (vanDerPolDerivative real_ops (3 / 2)) (1 / 50)
       (state2D (solveVanDerPol real_ops \<lparr>mu = 3 / 2, x0 = 2, y0 = 0, dt = 1 / 50, steps = 2\<rparr> ! 1))
       (1 / 50)) \<and>
   solveDampedPendulum real_ops
       \<lparr>gamma = 1 / 2, omega0 = 1, theta0 = 2, omegaInit = 0, dt = 1 / 50, steps = 2\<rparr> ! 2 =
     point2D real_ops (rk4Step2D real_ops (dampedPendulumDerivative real_ops (1 / 2) 1) (1 / 50)
       (state2D (solveDampedPendulum real_ops
         \<lparr>gamma = 1 / 2, omega0 = 1, theta0 = 2, omegaInit = 0, dt = 1 / 50, steps = 2\<rparr> ! 1))
       (1 / 50)) \<and>
   solveRossler real_ops
       \<lparr>a = 1 / 5, b = 1 / 5, c = 57 / 10, x0 = 1, y0 = 1, z0 = 1, dt = 1 / 50, steps = 2\<rparr> ! 2 =
     point3D (rk4Step3D real_ops (rosslerDerivative real_ops (1 / 5) (1 / 5) (57 / 10)) (1 / 50)
       (state3D (solveRossler real_ops
         \<lparr>a = 1 / 5, b = 1 / 5, c = 57 / 10, x0 = 1, y0 = 1, z0 = 1, dt = 1 / 50, steps = 2\<rparr> ! 1))
       (1 / 50))"
  using solve_step_relation [where A = real_ops and i = 2
      and pl = "\<lparr>sigma = 10, rho = 28, beta = 8 / 3, x0 = 1, y0 = 1, z0 = 1, dt = 1 / 100, steps = 2\<rparr>"
      and pv = "\<lparr>mu = 3 / 2, x0 = 2, y0 = 0, dt = 1 / 50, steps = 2\<rparr>"
      and pd = "\<lparr>gamma = 1 / 2, omega0 = 1, theta0 = 2, omegaInit = 0, dt = 1 / 50, steps = 2\<rparr>"
      and pr = "\<lparr>a = 1 / 5, b = 1 / 5, c = 57 / 10, x0 = 1, y0 = 1, z0 = 1, dt = 1 / 50, steps = 2\<rparr>"]
  by (simp del: rk4Step3D.simps rk4Step2D.simps lorenzDerivative.simps vanDerPolDerivative.simps
      dampedPendulumDerivative.simps rosslerDerivative.simps)

text \<open>
  C6. Every solve entry point returns for every input. The loops are total functions
  (their termination is proved with the definitions), the source has no validation, no
  \<^verbatim>\<open>throw\<close> and no early exit, so the model has no error value; and for every arithmetic,
  hence for parameters, states and step sizes that are zero, negative, infinite or NaN,
  the result is the initial point followed by exactly \<open>steps\<close> iterates of the step
  (none for negative \<open>steps\<close>), each computed from the one before whatever its value.
\<close>

theorem solve_total:
  "solveLorenz A pl = map point3D
     ((lorenz_params.x0 pl, lorenz_params.y0 pl, lorenz_params.z0 pl) #
      orbit (nat (lorenz_params.steps pl))
        (\<lambda>s. rk4Step3D A (lorenzDerivative A (sigma pl) (rho pl) (beta pl)) (n_lit A 0) s
           (lorenz_params.dt pl))
        (lorenz_params.x0 pl, lorenz_params.y0 pl, lorenz_params.z0 pl)) \<and>
   solveVanDerPol A pv = map (point2D A)
     ((van_der_pol_params.x0 pv, van_der_pol_params.y0 pv) #
      orbit (nat (van_der_pol_params.steps pv))
        (\<lambda>s. rk4Step2D A (vanDerPolDerivative A (mu pv)) (n_lit A 0) s (van_der_pol_params.dt pv))
        (van_der_pol_params.x0 pv, van_der_pol_params.y0 pv)) \<and>
   solveDampedPendulum A pd = map (point2D A)
     ((theta0 pd, omegaInit pd) #
      orbit (nat (damped_pendulum_params.steps pd))
        (\<lambda>s. rk4Step2D A (dampedPendulumDerivative A (gamma pd) (omega0 pd)) (n_lit A 0) s
           (damped_pendulum_params.dt pd))
        (theta0 pd, omegaInit pd)) \<and>
   solveRossler A pr = map point3D
     ((rossler_params.x0 pr, rossler_params.y0 pr, rossler_params.z0 pr) #
      orbit (nat (rossler_params.steps pr))
        (\<lambda>s. rk4Step3D A (rosslerDerivative A (a pr) (b pr) (c pr)) (n_lit A 0) s
           (rossler_params.dt pr))
        (rossler_params.x0 pr, rossler_params.y0 pr, rossler_params.z0 pr))"
  unfolding solveLorenz_trajectory [where ?t0.0 = "n_lit A 0"]
    solveVanDerPol_trajectory [where ?t0.0 = "n_lit A 0"]
    solveDampedPendulum_trajectory [where ?t0.0 = "n_lit A 0"]
    solveRossler_trajectory [where ?t0.0 = "n_lit A 0"] trajectory_def
  by simp

text \<open>
  Two runs in binary64: finite inputs whose weighted slope sum overflows, so that NaN
  appears at the first step and spreads at the second; and an infinite parameter, a NaN
  parameter and a negative step size. Both return all three points.
\<close>

theorem solve_total_witness:
  "solveLorenz (ieee_ops no_approx)
     \<lparr>sigma = Finite False (2 ^ 1023), rho = Finite False 0, beta = Finite False 0,
      x0 = Finite False 0, y0 = Finite False 1, z0 = Finite False 0,
      dt = Finite False 0, steps = 2\<rparr> =
   [Vector3 (Finite False 0) (Finite False 1) (Finite False 0),
    Vector3 NaN (Finite False 1) (Finite False 0),
    Vector3 NaN NaN NaN] \<and>
   solveLorenz (ieee_ops no_approx)
     \<lparr>sigma = Finite False 10, rho = Infinity True, beta = NaN,
      x0 = Finite False 0, y0 = Finite False 1, z0 = Finite False 0,
      dt = Finite True 1, steps = 2\<rparr> =
   [Vector3 (Finite False 0) (Finite False 1) (Finite False 0),
    Vector3 NaN NaN NaN, Vector3 NaN NaN NaN]"
proof -
  let ?f = "lorenzDerivative (ieee_ops no_approx) (Finite False 10) (Infinity True) NaN"
  have 1: "rk4Step3D (ieee_ops no_approx) ?f (d_lit 0)
      (Finite False 0, Finite False 1, Finite False 0) (Finite True 1) = (NaN, NaN, NaN)"
    by (simp add: d_eval)
  have 2: "rk4Step3D (ieee_ops no_approx) ?f (d_lit 0) (NaN, NaN, NaN) (Finite True 1) =
      (NaN, NaN, NaN)"
    by (simp add: d_eval)
  have n: "(2::nat) = Suc (Suc 0)" by simp
  note run = solve_total [where A = "ieee_ops no_approx", THEN conjunct1]
  have "solveLorenz (ieee_ops no_approx)
     \<lparr>sigma = Finite False (pow2 1023), rho = Finite False 0, beta = Finite False 0,
      x0 = Finite False 0, y0 = Finite False 1, z0 = Finite False 0,
      dt = Finite False 0, steps = 2\<rparr> =
   [Vector3 (Finite False 0) (Finite False 1) (Finite False 0),
    Vector3 NaN (Finite False 1) (Finite False 0),
    Vector3 NaN NaN NaN]"
    unfolding run
    by (simp add: n lorenz_overflow_step1 lorenz_overflow_step2
        del: rk4Step3D.simps lorenzDerivative.simps)
  moreover have "solveLorenz (ieee_ops no_approx)
     \<lparr>sigma = Finite False 10, rho = Infinity True, beta = NaN,
      x0 = Finite False 0, y0 = Finite False 1, z0 = Finite False 0,
      dt = Finite True 1, steps = 2\<rparr> =
   [Vector3 (Finite False 0) (Finite False 1) (Finite False 0),
    Vector3 NaN NaN NaN, Vector3 NaN NaN NaN]"
    unfolding run
    by (simp add: n 1 2 del: rk4Step3D.simps lorenzDerivative.simps)
  ultimately show ?thesis unfolding two_1023 by simp
qed

text \<open>
  C7. Every point returned by \<open>solveVanDerPol\<close> and by \<open>solveDampedPendulum\<close> has the
  literal \<open>0\<close> as its third coordinate, for all parameters, initial states, step sizes
  and step counts.
\<close>

theorem two_dimensional_third_coordinate:
  "(\<forall>v \<in> set (solveVanDerPol A pv). vec_z v = n_lit A 0) \<and>
   (\<forall>v \<in> set (solveDampedPendulum A pd). vec_z v = n_lit A 0)"
proof -
  have z: "vec_z (point2D A y) = n_lit A 0" for y :: "'a \<times> 'a"
    by (cases y) simp
  show ?thesis
    by (auto simp: solveVanDerPol_trajectory [where ?t0.0 = undefined]
        solveDampedPendulum_trajectory [where ?t0.0 = undefined] trajectory_def z)
qed

theorem two_dimensional_third_coordinate_witness:
  "vec_z (solveVanDerPol real_ops \<lparr>mu = 3 / 2, x0 = 2, y0 = 0, dt = 1 / 50, steps = 3\<rparr> ! 3) = 0 \<and>
   vec_z (solveDampedPendulum real_ops
     \<lparr>gamma = 1 / 2, omega0 = 1, theta0 = 2, omegaInit = 0, dt = 1 / 50, steps = 3\<rparr> ! 3) = 0"
proof -
  let ?pv = "\<lparr>mu = 3 / 2, x0 = 2, y0 = 0, dt = 1 / 50, steps = 3\<rparr> :: real van_der_pol_params"
  let ?pd = "\<lparr>gamma = 1 / 2, omega0 = 1, theta0 = 2, omegaInit = 0, dt = 1 / 50, steps = 3\<rparr>
    :: real damped_pendulum_params"
  have "length (solveVanDerPol real_ops ?pv) = 4"
    by (simp add: solveVanDerPol_trajectory [where ?t0.0 = 0] length_trajectory)
  then have v: "solveVanDerPol real_ops ?pv ! 3 \<in> set (solveVanDerPol real_ops ?pv)"
    by (intro nth_mem) simp
  have "length (solveDampedPendulum real_ops ?pd) = 4"
    by (simp add: solveDampedPendulum_trajectory [where ?t0.0 = 0] length_trajectory)
  then have d: "solveDampedPendulum real_ops ?pd ! 3 \<in> set (solveDampedPendulum real_ops ?pd)"
    by (intro nth_mem) simp
  from two_dimensional_third_coordinate [where A = real_ops and pv = ?pv and pd = ?pd] v d
  show ?thesis by simp
qed

text \<open>
  C8 as stated: for finite parameters and a finite initial state, \<open>dt = 0\<close> yields a
  constant trajectory. In binary64 this fails: with \<open>\<sigma> = 2^1023\<close> and the state
  \<open>(0, 1, 0)\<close> the slope \<open>(2^1023, -1, 0)\<close> is finite, but \<open>2 * 2^1023\<close> overflows to
  \<open>Infinity\<close>, \<open>Infinity * 0\<close> is NaN, and the second point is \<open>(NaN, 1, 0)\<close>.
\<close>

theorem zero_step_overflow_counterexample:
  "is_finite (Finite False (2 ^ 1023)) \<and> ordinary (Finite False 0) \<and> ordinary (Finite False 1) \<and>
   is_zero (Finite False 0) \<and>
   lorenzDerivative (ieee_ops no_approx) (Finite False (2 ^ 1023)) (Finite False 0) (Finite False 0)
     (d_lit 0) (Finite False 0, Finite False 1, Finite False 0) =
     (Finite False (2 ^ 1023), Finite True 1, Finite False 0) \<and>
   solveLorenz (ieee_ops no_approx)
     \<lparr>sigma = Finite False (2 ^ 1023), rho = Finite False 0, beta = Finite False 0,
      x0 = Finite False 0, y0 = Finite False 1, z0 = Finite False 0,
      dt = Finite False 0, steps = 2\<rparr> ! 1 = Vector3 NaN (Finite False 1) (Finite False 0) \<and>
   Vector3 NaN (Finite False 1) (Finite False 0) \<noteq>
     Vector3 (Finite False 0) (Finite False 1) (Finite False 0)"
proof -
  have "lorenzDerivative (ieee_ops no_approx) (Finite False (pow2 1023)) (Finite False 0) (Finite False 0)
     (d_lit 0) (Finite False 0, Finite False 1, Finite False 0) =
     (Finite False (pow2 1023), Finite True 1, Finite False 0)"
    by (simp add: d_eval round_mag_pow2 pow2_nz)
  then show ?thesis
    unfolding two_1023 lorenz_overflow_run
    by (simp add: is_finite_def is_zero_def ordinary_values
        del: lorenzDerivative.simps)
qed

text \<open>
  C8, amended. For each system, if \<open>dt\<close> is a zero, every component of the initial state
  is a finite double other than \<open>-0\<close>, and the weighted slope sum \<open>k + 2k + 2k + k\<close> at the
  initial state is finite in every component, then every one of the \<open>steps + 1\<close> points
  (one point for negative \<open>steps\<close>) is the initial point.
\<close>

theorem zero_step_constant:
  "(is_zero (lorenz_params.dt pl) \<and> ordinary (lorenz_params.x0 pl) \<and>
    ordinary (lorenz_params.y0 pl) \<and> ordinary (lorenz_params.z0 pl) \<and>
    no_overflow3D (ieee_ops ap) (lorenzDerivative (ieee_ops ap) (sigma pl) (rho pl) (beta pl)
      (d_lit 0) (lorenz_params.x0 pl, lorenz_params.y0 pl, lorenz_params.z0 pl)) \<longrightarrow>
    solveLorenz (ieee_ops ap) pl = replicate (nat (lorenz_params.steps pl) + 1)
      (Vector3 (lorenz_params.x0 pl) (lorenz_params.y0 pl) (lorenz_params.z0 pl))) \<and>
   (is_zero (van_der_pol_params.dt pv) \<and> ordinary (van_der_pol_params.x0 pv) \<and>
    ordinary (van_der_pol_params.y0 pv) \<and>
    no_overflow2D (ieee_ops ap) (vanDerPolDerivative (ieee_ops ap) (mu pv)
      (d_lit 0) (van_der_pol_params.x0 pv, van_der_pol_params.y0 pv)) \<longrightarrow>
    solveVanDerPol (ieee_ops ap) pv = replicate (nat (van_der_pol_params.steps pv) + 1)
      (Vector3 (van_der_pol_params.x0 pv) (van_der_pol_params.y0 pv) (d_lit 0))) \<and>
   (is_zero (damped_pendulum_params.dt pd) \<and> ordinary (theta0 pd) \<and> ordinary (omegaInit pd) \<and>
    no_overflow2D (ieee_ops ap) (dampedPendulumDerivative (ieee_ops ap) (gamma pd) (omega0 pd)
      (d_lit 0) (theta0 pd, omegaInit pd)) \<longrightarrow>
    solveDampedPendulum (ieee_ops ap) pd = replicate (nat (damped_pendulum_params.steps pd) + 1)
      (Vector3 (theta0 pd) (omegaInit pd) (d_lit 0))) \<and>
   (is_zero (rossler_params.dt pr) \<and> ordinary (rossler_params.x0 pr) \<and>
    ordinary (rossler_params.y0 pr) \<and> ordinary (rossler_params.z0 pr) \<and>
    no_overflow3D (ieee_ops ap) (rosslerDerivative (ieee_ops ap) (a pr) (b pr) (c pr)
      (d_lit 0) (rossler_params.x0 pr, rossler_params.y0 pr, rossler_params.z0 pr)) \<longrightarrow>
    solveRossler (ieee_ops ap) pr = replicate (nat (rossler_params.steps pr) + 1)
      (Vector3 (rossler_params.x0 pr) (rossler_params.y0 pr) (rossler_params.z0 pr)))"
  using lorenz_zero_step [of pl ap] van_der_pol_zero_step [of pv ap]
    damped_pendulum_zero_step [of pd ap] rossler_zero_step [of pr ap]
  by blast

theorem zero_step_constant_witness:
  "is_zero (Finite False 0) \<and>
   ordinary (Finite False 0) \<and> ordinary (Finite False 1) \<and> ordinary (Finite False 2) \<and>
   ordinary (Finite False 3) \<and>
   no_overflow3D (ieee_ops no_approx) (lorenzDerivative (ieee_ops no_approx)
     (Finite False 10) (Finite False 28) (Finite False 3) (d_lit 0)
     (Finite False 1, Finite False 2, Finite False 3)) \<and>
   solveLorenz (ieee_ops no_approx)
     \<lparr>sigma = Finite False 10, rho = Finite False 28, beta = Finite False 3,
      x0 = Finite False 1, y0 = Finite False 2, z0 = Finite False 3,
      dt = Finite False 0, steps = 3\<rparr> =
     replicate 4 (Vector3 (Finite False 1) (Finite False 2) (Finite False 3)) \<and>
   no_overflow2D (ieee_ops no_approx) (vanDerPolDerivative (ieee_ops no_approx)
     (Finite False 2) (d_lit 0) (Finite False 2, Finite False 1)) \<and>
   solveVanDerPol (ieee_ops no_approx)
     \<lparr>mu = Finite False 2, x0 = Finite False 2, y0 = Finite False 1,
      dt = Finite False 0, steps = 3\<rparr> =
     replicate 4 (Vector3 (Finite False 2) (Finite False 1) (Finite False 0)) \<and>
   no_overflow2D (ieee_ops no_approx) (dampedPendulumDerivative (ieee_ops no_approx)
     (Finite False 1) (Finite False 2) (d_lit 0) (Finite False 0, Finite False 1)) \<and>
   solveDampedPendulum (ieee_ops no_approx)
     \<lparr>gamma = Finite False 1, omega0 = Finite False 2, theta0 = Finite False 0,
      omegaInit = Finite False 1, dt = Finite False 0, steps = 3\<rparr> =
     replicate 4 (Vector3 (Finite False 0) (Finite False 1) (Finite False 0)) \<and>
   no_overflow3D (ieee_ops no_approx) (rosslerDerivative (ieee_ops no_approx)
     (Finite False 1) (Finite False 2) (Finite False 5) (d_lit 0)
     (Finite False 1, Finite False 2, Finite False 3)) \<and>
   solveRossler (ieee_ops no_approx)
     \<lparr>a = Finite False 1, b = Finite False 2, c = Finite False 5,
      x0 = Finite False 1, y0 = Finite False 2, z0 = Finite False 3,
      dt = Finite False 0, steps = 3\<rparr> =
     replicate 4 (Vector3 (Finite False 1) (Finite False 2) (Finite False 3))"
proof -
  have z: "is_zero (Finite False 0)" by (simp add: is_zero_def)
  have o: "ordinary (Finite False 0)" "ordinary (Finite False 1)" "ordinary (Finite False 2)"
    "ordinary (Finite False 3)"
    by (simp_all add: ordinary_values)
  have l: "no_overflow3D (ieee_ops no_approx) (lorenzDerivative (ieee_ops no_approx)
     (Finite False 10) (Finite False 28) (Finite False 3) (d_lit 0)
     (Finite False 1, Finite False 2, Finite False 3))"
    by (simp add: no_overflow3D_def weighted_sum_def is_finite_def d_eval)
  have v: "no_overflow2D (ieee_ops no_approx) (vanDerPolDerivative (ieee_ops no_approx)
     (Finite False 2) (d_lit 0) (Finite False 2, Finite False 1))"
    by (simp add: no_overflow2D_def weighted_sum_def is_finite_def d_eval)
  have d: "no_overflow2D (ieee_ops no_approx) (dampedPendulumDerivative (ieee_ops no_approx)
     (Finite False 1) (Finite False 2) (d_lit 0) (Finite False 0, Finite False 1))"
    by (simp add: no_overflow2D_def weighted_sum_def is_finite_def d_eval math_sin_zero)
  have r: "no_overflow3D (ieee_ops no_approx) (rosslerDerivative (ieee_ops no_approx)
     (Finite False 1) (Finite False 2) (Finite False 5) (d_lit 0)
     (Finite False 1, Finite False 2, Finite False 3))"
    by (simp add: no_overflow3D_def weighted_sum_def is_finite_def d_eval)
  from zero_step_constant [where ap = no_approx
      and pl = "\<lparr>sigma = Finite False 10, rho = Finite False 28, beta = Finite False 3,
        x0 = Finite False 1, y0 = Finite False 2, z0 = Finite False 3,
        dt = Finite False 0, steps = 3\<rparr>"
      and pv = "\<lparr>mu = Finite False 2, x0 = Finite False 2, y0 = Finite False 1,
        dt = Finite False 0, steps = 3\<rparr>"
      and pd = "\<lparr>gamma = Finite False 1, omega0 = Finite False 2, theta0 = Finite False 0,
        omegaInit = Finite False 1, dt = Finite False 0, steps = 3\<rparr>"
      and pr = "\<lparr>a = Finite False 1, b = Finite False 2, c = Finite False 5,
        x0 = Finite False 1, y0 = Finite False 2, z0 = Finite False 3,
        dt = Finite False 0, steps = 3\<rparr>"] z o l v d r
  show ?thesis
    by (simp add: d_lit_values del: lorenzDerivative.simps vanDerPolDerivative.simps
        dampedPendulumDerivative.simps rosslerDerivative.simps replicate.simps)
qed

text \<open>
  C9. For a negative step count the loop body never runs: each of the four solve
  functions returns the one-point trajectory holding the initial state.
\<close>

theorem solve_negative_steps:
  "(lorenz_params.steps pl < 0 \<longrightarrow> solveLorenz A pl =
      [Vector3 (lorenz_params.x0 pl) (lorenz_params.y0 pl) (lorenz_params.z0 pl)]) \<and>
   (van_der_pol_params.steps pv < 0 \<longrightarrow> solveVanDerPol A pv =
      [Vector3 (van_der_pol_params.x0 pv) (van_der_pol_params.y0 pv) (n_lit A 0)]) \<and>
   (damped_pendulum_params.steps pd < 0 \<longrightarrow> solveDampedPendulum A pd =
      [Vector3 (theta0 pd) (omegaInit pd) (n_lit A 0)]) \<and>
   (rossler_params.steps pr < 0 \<longrightarrow> solveRossler A pr =
      [Vector3 (rossler_params.x0 pr) (rossler_params.y0 pr) (rossler_params.z0 pr)])"
  by (simp add: solveLorenz_def solveVanDerPol_def solveDampedPendulum_def solveRossler_def
      for_loop3D.simps for_loop2D.simps)

theorem solve_negative_steps_witness:
  "(- 3::int) < 0 \<and>
   solveLorenz real_ops
     \<lparr>sigma = 10, rho = 28, beta = 8 / 3, x0 = 1, y0 = 2, z0 = 3, dt = 1 / 100, steps = - 3\<rparr> =
     [Vector3 1 2 3] \<and>
   solveVanDerPol real_ops \<lparr>mu = 3 / 2, x0 = 2, y0 = 5, dt = 1 / 50, steps = - 3\<rparr> =
     [Vector3 2 5 0] \<and>
   solveDampedPendulum real_ops
     \<lparr>gamma = 1 / 2, omega0 = 1, theta0 = 2, omegaInit = 7, dt = 1 / 50, steps = - 3\<rparr> =
     [Vector3 2 7 0] \<and>
   solveRossler real_ops
     \<lparr>a = 1 / 5, b = 1 / 5, c = 57 / 10, x0 = 4, y0 = 5, z0 = 6, dt = 1 / 50, steps = - 3\<rparr> =
     [Vector3 4 5 6]"
  using solve_negative_steps [where A = real_ops
      and pl = "\<lparr>sigma = 10, rho = 28, beta = 8 / 3, x0 = 1, y0 = 2, z0 = 3, dt = 1 / 100, steps = - 3\<rparr>"
      and pv = "\<lparr>mu = 3 / 2, x0 = 2, y0 = 5, dt = 1 / 50, steps = - 3\<rparr>"
      and pd = "\<lparr>gamma = 1 / 2, omega0 = 1, theta0 = 2, omegaInit = 7, dt = 1 / 50, steps = - 3\<rparr>"
      and pr = "\<lparr>a = 1 / 5, b = 1 / 5, c = 57 / 10, x0 = 4, y0 = 5, z0 = 6, dt = 1 / 50, steps = - 3\<rparr>"]
  by simp

text \<open>
  C10. Restart: for \<open>0 \<le> i \<le> steps\<close>, solving again from point \<open>i\<close> of a trajectory
  with \<open>steps - i\<close> steps, all parameters and \<open>dt\<close> unchanged, returns the suffix of the
  trajectory that starts at index \<open>i\<close>. The time values handed to the stepper differ
  between the two runs; the derivative functions ignore them.
\<close>

theorem solve_restart:
  "(0 \<le> i \<and> i \<le> lorenz_params.steps pl \<longrightarrow>
      solveLorenz A (pl\<lparr>lorenz_params.x0 := vec_x (solveLorenz A pl ! nat i),
                        lorenz_params.y0 := vec_y (solveLorenz A pl ! nat i),
                        lorenz_params.z0 := vec_z (solveLorenz A pl ! nat i),
                        lorenz_params.steps := lorenz_params.steps pl - i\<rparr>) =
      drop (nat i) (solveLorenz A pl)) \<and>
   (0 \<le> i \<and> i \<le> van_der_pol_params.steps pv \<longrightarrow>
      solveVanDerPol A (pv\<lparr>van_der_pol_params.x0 := vec_x (solveVanDerPol A pv ! nat i),
                           van_der_pol_params.y0 := vec_y (solveVanDerPol A pv ! nat i),
                           van_der_pol_params.steps := van_der_pol_params.steps pv - i\<rparr>) =
      drop (nat i) (solveVanDerPol A pv)) \<and>
   (0 \<le> i \<and> i \<le> damped_pendulum_params.steps pd \<longrightarrow>
      solveDampedPendulum A (pd\<lparr>theta0 := vec_x (solveDampedPendulum A pd ! nat i),
                                omegaInit := vec_y (solveDampedPendulum A pd ! nat i),
                                damped_pendulum_params.steps := damped_pendulum_params.steps pd - i\<rparr>) =
      drop (nat i) (solveDampedPendulum A pd)) \<and>
   (0 \<le> i \<and> i \<le> rossler_params.steps pr \<longrightarrow>
      solveRossler A (pr\<lparr>rossler_params.x0 := vec_x (solveRossler A pr ! nat i),
                         rossler_params.y0 := vec_y (solveRossler A pr ! nat i),
                         rossler_params.z0 := vec_z (solveRossler A pr ! nat i),
                         rossler_params.steps := rossler_params.steps pr - i\<rparr>) =
      drop (nat i) (solveRossler A pr))"
proof (intro conjI impI)
  assume "0 \<le> i \<and> i \<le> lorenz_params.steps pl"
  then have i: "0 \<le> i" "i \<le> lorenz_params.steps pl" by simp_all
  from trajectory_drop [OF i, of state3D point3D, OF state3D_point3D]
  show "solveLorenz A (pl\<lparr>lorenz_params.x0 := vec_x (solveLorenz A pl ! nat i),
                        lorenz_params.y0 := vec_y (solveLorenz A pl ! nat i),
                        lorenz_params.z0 := vec_z (solveLorenz A pl ! nat i),
                        lorenz_params.steps := lorenz_params.steps pl - i\<rparr>) =
      drop (nat i) (solveLorenz A pl)"
    by (simp add: solveLorenz_trajectory [where ?t0.0 = undefined] state3D_def)
next
  assume "0 \<le> i \<and> i \<le> van_der_pol_params.steps pv"
  then have i: "0 \<le> i" "i \<le> van_der_pol_params.steps pv" by simp_all
  from trajectory_drop [OF i, of state2D "point2D A", OF state2D_point2D]
  show "solveVanDerPol A (pv\<lparr>van_der_pol_params.x0 := vec_x (solveVanDerPol A pv ! nat i),
                           van_der_pol_params.y0 := vec_y (solveVanDerPol A pv ! nat i),
                           van_der_pol_params.steps := van_der_pol_params.steps pv - i\<rparr>) =
      drop (nat i) (solveVanDerPol A pv)"
    by (simp add: solveVanDerPol_trajectory [where ?t0.0 = undefined] state2D_def)
next
  assume "0 \<le> i \<and> i \<le> damped_pendulum_params.steps pd"
  then have i: "0 \<le> i" "i \<le> damped_pendulum_params.steps pd" by simp_all
  from trajectory_drop [OF i, of state2D "point2D A", OF state2D_point2D]
  show "solveDampedPendulum A (pd\<lparr>theta0 := vec_x (solveDampedPendulum A pd ! nat i),
                                omegaInit := vec_y (solveDampedPendulum A pd ! nat i),
                                damped_pendulum_params.steps := damped_pendulum_params.steps pd - i\<rparr>) =
      drop (nat i) (solveDampedPendulum A pd)"
    by (simp add: solveDampedPendulum_trajectory [where ?t0.0 = undefined] state2D_def)
next
  assume "0 \<le> i \<and> i \<le> rossler_params.steps pr"
  then have i: "0 \<le> i" "i \<le> rossler_params.steps pr" by simp_all
  from trajectory_drop [OF i, of state3D point3D, OF state3D_point3D]
  show "solveRossler A (pr\<lparr>rossler_params.x0 := vec_x (solveRossler A pr ! nat i),
                         rossler_params.y0 := vec_y (solveRossler A pr ! nat i),
                         rossler_params.z0 := vec_z (solveRossler A pr ! nat i),
                         rossler_params.steps := rossler_params.steps pr - i\<rparr>) =
      drop (nat i) (solveRossler A pr)"
    by (simp add: solveRossler_trajectory [where ?t0.0 = undefined] state3D_def)
qed

theorem solve_restart_witness:
  "(0::int) \<le> 1 \<and> (1::int) \<le> 2 \<and>
   solveLorenz real_ops
     \<lparr>sigma = 10, rho = 28, beta = 8 / 3,
      x0 = vec_x (solveLorenz real_ops \<lparr>sigma = 10, rho = 28, beta = 8 / 3, x0 = 1, y0 = 1, z0 = 1, dt = 1 / 100, steps = 2\<rparr> ! 1),
      y0 = vec_y (solveLorenz real_ops \<lparr>sigma = 10, rho = 28, beta = 8 / 3, x0 = 1, y0 = 1, z0 = 1, dt = 1 / 100, steps = 2\<rparr> ! 1),
      z0 = vec_z (solveLorenz real_ops \<lparr>sigma = 10, rho = 28, beta = 8 / 3, x0 = 1, y0 = 1, z0 = 1, dt = 1 / 100, steps = 2\<rparr> ! 1), dt = 1 / 100, steps = 1\<rparr> =
     drop 1 (solveLorenz real_ops \<lparr>sigma = 10, rho = 28, beta = 8 / 3, x0 = 1, y0 = 1, z0 = 1, dt = 1 / 100, steps = 2\<rparr>) \<and>
   solveVanDerPol real_ops
     \<lparr>mu = 3 / 2, x0 = vec_x (solveVanDerPol real_ops \<lparr>mu = 3 / 2, x0 = 2, y0 = 0, dt = 1 / 50, steps = 2\<rparr> ! 1),
      y0 = vec_y (solveVanDerPol real_ops \<lparr>mu = 3 / 2, x0 = 2, y0 = 0, dt = 1 / 50, steps = 2\<rparr> ! 1), dt = 1 / 50, steps = 1\<rparr> =
     drop 1 (solveVanDerPol real_ops \<lparr>mu = 3 / 2, x0 = 2, y0 = 0, dt = 1 / 50, steps = 2\<rparr>) \<and>
   solveDampedPendulum real_ops
     \<lparr>gamma = 1 / 2, omega0 = 1, theta0 = vec_x (solveDampedPendulum real_ops \<lparr>gamma = 1 / 2, omega0 = 1, theta0 = 2, omegaInit = 0, dt = 1 / 50, steps = 2\<rparr> ! 1),
      omegaInit = vec_y (solveDampedPendulum real_ops \<lparr>gamma = 1 / 2, omega0 = 1, theta0 = 2, omegaInit = 0, dt = 1 / 50, steps = 2\<rparr> ! 1), dt = 1 / 50, steps = 1\<rparr> =
     drop 1 (solveDampedPendulum real_ops \<lparr>gamma = 1 / 2, omega0 = 1, theta0 = 2, omegaInit = 0, dt = 1 / 50, steps = 2\<rparr>) \<and>
   solveRossler real_ops
     \<lparr>a = 1 / 5, b = 1 / 5, c = 57 / 10,
      x0 = vec_x (solveRossler real_ops \<lparr>a = 1 / 5, b = 1 / 5, c = 57 / 10, x0 = 1, y0 = 1, z0 = 1, dt = 1 / 50, steps = 2\<rparr> ! 1),
      y0 = vec_y (solveRossler real_ops \<lparr>a = 1 / 5, b = 1 / 5, c = 57 / 10, x0 = 1, y0 = 1, z0 = 1, dt = 1 / 50, steps = 2\<rparr> ! 1),
      z0 = vec_z (solveRossler real_ops \<lparr>a = 1 / 5, b = 1 / 5, c = 57 / 10, x0 = 1, y0 = 1, z0 = 1, dt = 1 / 50, steps = 2\<rparr> ! 1), dt = 1 / 50, steps = 1\<rparr> =
     drop 1 (solveRossler real_ops \<lparr>a = 1 / 5, b = 1 / 5, c = 57 / 10, x0 = 1, y0 = 1, z0 = 1, dt = 1 / 50, steps = 2\<rparr>)"
  using solve_restart [where A = real_ops and i = 1
      and pl = "\<lparr>sigma = 10, rho = 28, beta = 8 / 3, x0 = 1, y0 = 1, z0 = 1, dt = 1 / 100, steps = 2\<rparr>"
      and pv = "\<lparr>mu = 3 / 2, x0 = 2, y0 = 0, dt = 1 / 50, steps = 2\<rparr>"
      and pd = "\<lparr>gamma = 1 / 2, omega0 = 1, theta0 = 2, omegaInit = 0, dt = 1 / 50, steps = 2\<rparr>"
      and pr = "\<lparr>a = 1 / 5, b = 1 / 5, c = 57 / 10, x0 = 1, y0 = 1, z0 = 1, dt = 1 / 50, steps = 2\<rparr>"]
  by simp

end
